theory Spec2Isabelle
  imports Complex_Main "HOL-Library.Word" "HOL-Library.Sublist"
begin

section \<open>The liveness association table and the collector's sweep hook\<close>

text \<open>
  \<^verbatim>\<open>PyTypeToGCThing\<close> is a \<^verbatim>\<open>std::unordered_map\<close> from \<^verbatim>\<open>PyType *\<close> to a
  \<^verbatim>\<open>std::vector\<close> of \<^verbatim>\<open>JS::PersistentRooted<JS::Value> *\<close>. Pointers are
  modelled by natural numbers (their addresses), the map by the list of its entries in
  iteration order, and an iterator by its position in that list. Erasing from an
  unordered map keeps the order of the entries that stay.
\<close>

type_synonym PyType_ptr = nat
type_synonym GCThing_ptr = nat
type_synonym PyToGC_table = "(PyType_ptr \<times> GCThing_ptr list) list"

text \<open>What the sweep hook reads of the \<^verbatim>\<open>PyObject\<close> behind a \<^verbatim>\<open>PyType\<close>.\<close>

record PyObject_head =
  ob_refcnt :: int
  gc_finalized :: bool

type_synonym py_heap = "PyType_ptr \<Rightarrow> PyObject_head"

datatype JSGCStatus = JSGC_BEGIN | JSGC_END

record sweep_state =
  pyIt :: nat
  PyTypeToGCThing :: PyToGC_table
  deleted :: "GCThing_ptr list"

text \<open>\<^verbatim>\<open>std::find(v.begin(), v.end(), rval) != v.end()\<close>\<close>

fun std_find :: "GCThing_ptr list \<Rightarrow> GCThing_ptr \<Rightarrow> bool" where
  "std_find [] rval = False"
| "std_find (x # xs) rval = (if x = rval then True else std_find xs rval)"

text \<open>
  The inner \<^verbatim>\<open>for\<close> loop over \<^verbatim>\<open>innerPyIt\<close> (lines 33 to 38): it sets
  \<^verbatim>\<open>found\<close> and breaks at the first entry other than \<^verbatim>\<open>pyIt\<close> whose vector
  holds \<^verbatim>\<open>rval\<close>.
\<close>

function found_loop :: "PyToGC_table \<Rightarrow> nat \<Rightarrow> nat \<Rightarrow> GCThing_ptr \<Rightarrow> bool" where
  "found_loop t it innerPyIt rval =
     (if innerPyIt < length t then
        (if innerPyIt \<noteq> it \<and> std_find (snd (t ! innerPyIt)) rval then True
         else found_loop t it (Suc innerPyIt) rval)
      else False)"
  by pat_completeness auto
termination
  by (relation "measure (\<lambda>(t, it, innerPyIt, rval). length t - innerPyIt)") auto

declare found_loop.simps [simp del]

text \<open>
  The \<^verbatim>\<open>for\<close> loop over the handles of the entry at \<^verbatim>\<open>pyIt\<close> (lines 31 to 43);
  every \<^verbatim>\<open>delete rval\<close> is recorded, in order, in the list of deleted handles.
\<close>

fun delete_loop ::
  "PyToGC_table \<Rightarrow> nat \<Rightarrow> GCThing_ptr list \<Rightarrow> GCThing_ptr list \<Rightarrow> GCThing_ptr list" where
  "delete_loop t it [] del = del"
| "delete_loop t it (rval # rvals) del =
     (let found = found_loop t it 0 rval
      in delete_loop t it rvals (if \<not> found then del @ [rval] else del))"

text \<open>\<^verbatim>\<open>PyTypeToGCThing.erase(pyIt)\<close>: the entry goes, the iterator stays at its position,
  which now holds the next entry.\<close>

definition erase :: "PyToGC_table \<Rightarrow> nat \<Rightarrow> PyToGC_table" where
  "erase t it = take it t @ drop (Suc it) t"

text \<open>One run of the body of the \<^verbatim>\<open>while\<close> loop (lines 28 to 48).\<close>

definition sweep_body :: "py_heap \<Rightarrow> sweep_state \<Rightarrow> sweep_state" where
  "sweep_body heap s =
     (let t = PyTypeToGCThing s; it = pyIt s; obj = heap (fst (t ! it))
      in if gc_finalized obj \<or> ob_refcnt obj = 1 then
           \<lparr>pyIt = it,
            PyTypeToGCThing = erase t it,
            deleted = delete_loop t it (snd (t ! it)) (deleted s)\<rparr>
         else s\<lparr>pyIt := Suc it\<rparr>)"

function sweep_loop :: "py_heap \<Rightarrow> sweep_state \<Rightarrow> sweep_state" where
  "sweep_loop heap s =
     (if pyIt s < length (PyTypeToGCThing s) then sweep_loop heap (sweep_body heap s)
      else s)"
  by pat_completeness auto
termination
  by (relation "measure (\<lambda>(heap, s). length (PyTypeToGCThing s) - pyIt s)")
     (auto simp: sweep_body_def erase_def Let_def)

declare sweep_loop.simps [simp del]

text \<open>
  The hook itself: it works only when the collector reports the beginning of a cycle.
  It returns the table it leaves and the handles it deleted, in the order of deletion.
\<close>

definition sweep_begin :: "PyToGC_table \<Rightarrow> sweep_state" where
  "sweep_begin t = \<lparr>pyIt = 0, PyTypeToGCThing = t, deleted = []\<rparr>"

definition handleSharedPythonMonkeyMemory ::
  "py_heap \<Rightarrow> JSGCStatus \<Rightarrow> PyToGC_table \<Rightarrow> PyToGC_table \<times> GCThing_ptr list" where
  "handleSharedPythonMonkeyMemory heap status t =
     (if status = JSGC_BEGIN then
        (let s = sweep_loop heap (sweep_begin t) in (PyTypeToGCThing s, deleted s))
      else (t, []))"

text \<open>The states the hook is in between two runs of the loop body, from the call on.\<close>

inductive sweep_reach :: "py_heap \<Rightarrow> PyToGC_table \<Rightarrow> sweep_state \<Rightarrow> bool"
  for heap :: py_heap and t :: PyToGC_table where
  start: "sweep_reach heap t (sweep_begin t)"
| step: "sweep_reach heap t s \<Longrightarrow> pyIt s < length (PyTypeToGCThing s)
          \<Longrightarrow> sweep_reach heap t (sweep_body heap s)"

text \<open>
  \<^verbatim>\<open>memoizePyTypeAndGCThing\<close>: \<^verbatim>\<open>find\<close> looks the wrapper up; a known wrapper gets
  one more handle at the end of its vector (\<^verbatim>\<open>push_back\<close>), an unknown one a new entry.
  The language leaves the place of a new entry in the iteration order open; the GNU
  library iterates it first, and so it is put here.
\<close>

fun push_back :: "PyToGC_table \<Rightarrow> PyType_ptr \<Rightarrow> GCThing_ptr \<Rightarrow> PyToGC_table" where
  "push_back [] pyType GCThing = []"
| "push_back ((k, v) # t) pyType GCThing =
     (if k = pyType then (k, v @ [GCThing]) # t
      else (k, v) # push_back t pyType GCThing)"

definition memoizePyTypeAndGCThing ::
  "PyToGC_table \<Rightarrow> PyType_ptr \<Rightarrow> GCThing_ptr \<Rightarrow> PyToGC_table" where
  "memoizePyTypeAndGCThing t pyType GCThing =
     (if map_of t pyType = None then (pyType, [GCThing]) # t
      else push_back t pyType GCThing)"

text \<open>The two predicates the statements about the sweep are written with.\<close>

definition host_unreachable :: "py_heap \<Rightarrow> PyType_ptr \<times> GCThing_ptr list \<Rightarrow> bool" where
  "host_unreachable heap e = (gc_finalized (heap (fst e)) \<or> ob_refcnt (heap (fst e)) = 1)"

definition lists_handle :: "PyType_ptr \<times> GCThing_ptr list \<Rightarrow> GCThing_ptr \<Rightarrow> bool" where
  "lists_handle e rval = (rval \<in> set (snd e))"

text \<open>A host heap for the examples: wrapper 2 is still referenced from host code,
  wrapper 3 is finalized, every other wrapper is held by the bridge alone.\<close>

definition heap0 :: py_heap where
  "heap0 p = \<lparr>ob_refcnt = (if p = 2 then 2 else 1), gc_finalized = (p = 3)\<rparr>"

section \<open>Values of the engine and of the host\<close>

text \<open>
  \<^verbatim>\<open>uint8_t\<close> and \<^verbatim>\<open>int32_t\<close> are words; an \<^verbatim>\<open>int32_t\<close> is read with \<open>sint\<close>.
  \<^verbatim>\<open>size_t\<close> and \<^verbatim>\<open>Py_ssize_t\<close> values are lengths of byte sequences held in
  memory, far below \<open>2 ^ 63\<close>, and are modelled by \<open>nat\<close> and \<open>int\<close>; the conversion
  of such a length to \<^verbatim>\<open>int32_t\<close> is written out where the source makes it.
\<close>

type_synonym uint8_t = "8 word"
type_synonym int32_t = "32 word"

text \<open>The natives of \<^verbatim>\<open>PyBytesProxyHandler.cc\<close>, as function pointers.\<close>

datatype JSNative =
  fn_array_toString | fn_array_valueOf | fn_array_entries | fn_array_keys | fn_array_values
  | fn_iterator_next

text \<open>
  A double is given by the real number it stands for, or is one of the three special
  values; no arithmetic of doubles is modelled but the \<^verbatim>\<open>+ 1\<close> on a month. \<^verbatim>\<open>JS::Value\<close> is the
  tagged union of the engine; an object is known by what the model needs of it: the
  function objects made by \<^verbatim>\<open>JS_NewFunction\<close> (numbered in order of creation), array
  buffers (by address), plain objects and arrays (by their properties and elements), and
  other objects of the engine (by address).
\<close>

datatype double = Finite real | PlusInfinity | MinusInfinity | NaN

datatype JSValue =
  UndefinedValue | NullValue | BooleanValue bool | Int32Value int32_t | DoubleValue double
  | StringValue string | SymbolValue | BigIntValue | ObjectValue JSObject | MagicValue
and JSObject =
  FunctionObject nat | ArrayBufferObject nat | PlainObject "(string \<times> JSValue) list"
  | ArrayObject "JSValue list" | EngineObject nat

text \<open>\<^verbatim>\<open>JS::SymbolCode\<close> and the property keys (\<^verbatim>\<open>jsid\<close>): a string that is not
  an index, a symbol, or an integer index (an index-like string is already an integer
  key when a handler sees it; integer keys are never negative).\<close>

datatype SymbolCode =
  sym_isConcatSpreadable | sym_iterator | sym_match | sym_replace | sym_search | sym_species
  | sym_hasInstance | sym_split | sym_toPrimitive | sym_toStringTag | sym_unscopables
  | sym_asyncIterator | sym_matchAll | sym_InSymbolRegistry | sym_UniqueSymbol

datatype JSId = IdString string | IdSymbol SymbolCode | IdInt nat

datatype PropertyAttribute = Configurable | Enumerable | Writable

datatype PropertyDescriptor = Data JSValue "PropertyAttribute list"

text \<open>
  What the engine keeps of an exception it has thrown: whether
  \<^verbatim>\<open>JS::GetPendingExceptionStack\<close> can retrieve it, whether
  \<^verbatim>\<open>JS::ErrorReportBuilder::init\<close> succeeds on it, the error report (if there is
  one), the message \<^verbatim>\<open>toStringResult()\<close>, and the rendering of its stack by
  \<^verbatim>\<open>BuildStackString\<close> (if it has a stack). The line of code of a report is given
  in the encoding of the host strings already.
\<close>

record JSErrorReport =
  filename :: string
  lineno :: nat
  linebuf :: "string option"
  tokenOffset :: nat

record PendingException =
  retrievable :: bool
  report_init :: bool
  report :: "JSErrorReport option"
  toStringResult :: string
  stack :: "string option"

text \<open>
  The engine context, as far as the handlers depend on it: the pending exception, the
  natives of the function objects created so far, whether the global object has its
  \<^verbatim>\<open>BytesIterator\<close> class yet, the value of the \<^verbatim>\<open>constructor\<close> property of the \<^verbatim>\<open>Uint8Array\<close>
  prototype, and whether the engine is out of memory: then the engine calls whose
  failure the handlers check (\<^verbatim>\<open>JS_NewFunction\<close>, \<^verbatim>\<open>JS_SetProperty\<close>,
  \<^verbatim>\<open>JS_GetProperty\<close>, \<^verbatim>\<open>JS_GetClassPrototype\<close>, \<^verbatim>\<open>JS::Construct\<close>) fail. The
  calls whose result they use unchecked are taken to succeed.
\<close>

record JSContext =
  pending_exception :: "PendingException option"
  function_objects :: "JSNative list"
  BytesIterator_defined :: bool
  Uint8Array_prototype_constructor :: JSValue
  out_of_memory :: bool

text \<open>The host side: the exception types the bridge raises, the error indicator of the
  interpreter and what was printed to the standard output.\<close>

datatype PyExc = PyExc_TypeError | PyExc_RuntimeError | SpiderMonkeyError

record PyState =
  PyErr_Occurred :: "(PyExc \<times> string) option"
  stdout :: string

definition PyErr_SetString :: "PyExc \<Rightarrow> string \<Rightarrow> PyState \<Rightarrow> PyState" where
  "PyErr_SetString exc msg py = py\<lparr>PyErr_Occurred := Some (exc, msg)\<rparr>"

definition printf :: "string \<Rightarrow> PyState \<Rightarrow> PyState" where
  "printf msg py = py\<lparr>stdout := stdout py @ msg\<rparr>"

text \<open>
  A string is the list of its bytes, a host string the list of the bytes of its UTF-8
  form. What C reads of a string as a \<^verbatim>\<open>char *\<close> (\<^verbatim>\<open>strlen\<close>, \<^verbatim>\<open>%s\<close>,
  \<^verbatim>\<open>code->getValue()\<close>) are the bytes before the first NUL.
\<close>

definition c_str :: "string \<Rightarrow> string" where
  "c_str s = takeWhile (\<lambda>c. c \<noteq> CHR 0x00) s"

text \<open>
  \<^verbatim>\<open>PyUnicode_DecodeUTF8Stateful(s, n, "replace", NULL)\<close>, which the conversions
  \<^verbatim>\<open>%s\<close> of \<^verbatim>\<open>PyErr_Format\<close> decode their argument with: a well-formed sequence of
  one to four bytes is a character; a byte that starts none, the bytes of a sequence up
  to the first that does not continue it, and a sequence that the end of the bytes cuts
  short each give the replacement character U+FFFD. \<open>utf8_decode\<close> reads at the byte
  \<open>c\<close>, followed by \<open>cs\<close>: it gives the character (in UTF-8) and how many bytes of
  \<open>cs\<close> it took.
\<close>

definition IS_CONTINUATION_BYTE :: "char \<Rightarrow> bool" where
  "IS_CONTINUATION_BYTE c = (0x80 \<le> (of_char c :: nat) \<and> (of_char c :: nat) < 0xC0)"

definition replacement_character :: string where
  "replacement_character = [CHR 0xEF, CHR 0xBF, CHR 0xBD]"

definition utf8_decode :: "char \<Rightarrow> string \<Rightarrow> string \<times> nat" where
  "utf8_decode c cs =
     (let ch = (of_char c :: nat) in
      if ch < 0x80 then ([c], 0)
      else if ch < 0xC2 then (replacement_character, 0)
      else if ch < 0xE0 then
        (case cs of
           [] \<Rightarrow> (replacement_character, 0)
         | c2 # cs2 \<Rightarrow>
             if \<not> IS_CONTINUATION_BYTE c2 then (replacement_character, 0)
             else ([c, c2], 1))
      else if ch < 0xF0 then
        (case cs of
           [] \<Rightarrow> (replacement_character, 0)
         | c2 # cs2 \<Rightarrow>
             if \<not> IS_CONTINUATION_BYTE c2
                \<or> (if (of_char c2 :: nat) < 0xA0 then ch = 0xE0 else ch = 0xED)
             then (replacement_character, 0)
             else
               (case cs2 of
                  [] \<Rightarrow> (replacement_character, 1)
                | c3 # cs3 \<Rightarrow>
                    if \<not> IS_CONTINUATION_BYTE c3 then (replacement_character, 1)
                    else ([c, c2, c3], 2)))
      else if ch < 0xF5 then
        (case cs of
           [] \<Rightarrow> (replacement_character, 0)
         | c2 # cs2 \<Rightarrow>
             if \<not> IS_CONTINUATION_BYTE c2
                \<or> (if (of_char c2 :: nat) < 0x90 then ch = 0xF0 else ch = 0xF4)
             then (replacement_character, 0)
             else
               (case cs2 of
                  [] \<Rightarrow> (replacement_character, 1)
                | c3 # cs3 \<Rightarrow>
                    if \<not> IS_CONTINUATION_BYTE c3 then (replacement_character, 1)
                    else
                      (case cs3 of
                         [] \<Rightarrow> (replacement_character, 2)
                       | c4 # cs4 \<Rightarrow>
                           if \<not> IS_CONTINUATION_BYTE c4 then (replacement_character, 2)
                           else ([c, c2, c3, c4], 3))))
      else (replacement_character, 0))"

function PyUnicode_DecodeUTF8_replace :: "string \<Rightarrow> string" where
  "PyUnicode_DecodeUTF8_replace [] = []"
| "PyUnicode_DecodeUTF8_replace (c # cs) =
     (case utf8_decode c cs of
        (character, k) \<Rightarrow> character @ PyUnicode_DecodeUTF8_replace (drop k cs))"
  by pat_completeness auto
termination
  by (relation "measure length") auto

declare PyUnicode_DecodeUTF8_replace.simps [simp del]

text \<open>\<^verbatim>\<open>std::to_string\<close> of an unsigned value: its decimal digits.\<close>

definition digit :: "nat \<Rightarrow> char" where
  "digit d = ''0123456789'' ! d"

function to_string :: "nat \<Rightarrow> string" where
  "to_string n = (if n < 10 then [digit n] else to_string (n div 10) @ [digit (n mod 10)])"
  by pat_completeness auto
termination
  by (relation "measure id") auto

declare to_string.simps [simp del]

section \<open>The proxy over a bytes object\<close>

text \<open>
  The two reserved slots of a proxy: \<^verbatim>\<open>PyObjectSlot\<close> holds the wrapped host object
  (the model keeps the name of its type, \<^verbatim>\<open>Py_TYPE(self)->tp_name\<close>) and
  \<^verbatim>\<open>OtherSlot\<close> the array buffer over its bytes.
\<close>

record ArrayBuffer =
  address :: nat
  contents :: "uint8_t list"

record PyObject =
  tp_name :: string

record Proxy =
  PyObjectSlot :: PyObject
  OtherSlot :: ArrayBuffer

definition GetArrayBufferByteLength :: "ArrayBuffer \<Rightarrow> nat" where
  "GetArrayBufferByteLength b = length (contents b)"

subsection \<open>\<^verbatim>\<open>array_valueOf\<close> and \<^verbatim>\<open>array_toString\<close>\<close>

text \<open>The loop of lines 42 to 48 over \<^verbatim>\<open>index\<close>, building \<^verbatim>\<open>valueOfString\<close>.\<close>

function valueOf_loop :: "uint8_t list \<Rightarrow> nat \<Rightarrow> string \<Rightarrow> string" where
  "valueOf_loop data index valueOfString =
     (if index < length data then
        valueOf_loop data (Suc index)
          ((if index > 0 then valueOfString @ '','' else valueOfString)
             @ to_string (unat (data ! index)))
      else valueOfString)"
  by pat_completeness auto
termination
  by (relation "measure (\<lambda>(data, index, s). length data - index)") auto

declare valueOf_loop.simps [simp del]

text \<open>The native is modelled on a \<^verbatim>\<open>this\<close> that is the proxy, so that
  \<^verbatim>\<open>JS::ToObject\<close> gives it back; it returns \<^verbatim>\<open>true\<close> and the string in
  \<^verbatim>\<open>args.rval()\<close>.\<close>

definition array_valueOf :: "JSContext \<Rightarrow> Proxy \<Rightarrow> bool \<times> JSValue option" where
  "array_valueOf cx proxy =
     (let valueOfString = valueOf_loop (contents (OtherSlot proxy)) 0 []
      in (True, Some (StringValue valueOfString)))"

definition array_toString :: "JSContext \<Rightarrow> Proxy \<Rightarrow> bool \<times> JSValue option" where
  "array_toString cx proxy = array_valueOf cx proxy"

subsection \<open>The iterator\<close>

definition ITEM_KIND_KEY :: int32_t where "ITEM_KIND_KEY = 0"
definition ITEM_KIND_VALUE :: int32_t where "ITEM_KIND_VALUE = 1"
definition ITEM_KIND_KEY_AND_VALUE :: int32_t where "ITEM_KIND_KEY_AND_VALUE = 2"

text \<open>The reserved slots of a \<^verbatim>\<open>BytesIterator\<close>. The two integer slots only ever hold
  \<^verbatim>\<open>JS::Int32Value\<close>s, so \<^verbatim>\<open>JS::ToInt32\<close> reads them back as they are.\<close>

record BytesIterator =
  BytesIteratorSlotIteratedObject :: ArrayBuffer
  BytesIteratorSlotNextIndex :: int32_t
  BytesIteratorSlotItemKind :: int32_t

text \<open>What is not defined by the language: a read outside the buffer, the use of a value
  that is not an object as an object, and of one that is not a number as a number.\<close>

datatype UndefinedBehaviour = OutOfBoundsRead int | NotAnObject | NotANumber

text \<open>\<^verbatim>\<open>data[i]\<close> for a signed \<open>i\<close>: the byte, or a read outside the buffer.\<close>

definition read_byte :: "uint8_t list \<Rightarrow> int \<Rightarrow> UndefinedBehaviour + uint8_t" where
  "read_byte data i =
     (if 0 \<le> i \<and> i < int (length data) then Inr (data ! nat i) else Inl (OutOfBoundsRead i))"

text \<open>
  A call of \<^verbatim>\<open>iterator_next\<close> on an iterator returns (the \<^verbatim>\<open>bool\<close>, the object put
  in \<^verbatim>\<open>args.rval()\<close> if any, and the iterator as the call leaves it) or runs into
  undefined behaviour. \<^verbatim>\<open>nextIndex + 1\<close> is an addition of \<^verbatim>\<open>int32_t\<close>; past
  \<^verbatim>\<open>INT32_MAX\<close> the model wraps around, as the machines do.
\<close>

datatype next_result = Next bool "JSValue option" BytesIterator | NextUndefined UndefinedBehaviour

definition iterator_next :: "JSContext \<Rightarrow> BytesIterator \<Rightarrow> next_result" where
  "iterator_next cx thisObj =
     (let arrayBuffer = BytesIteratorSlotIteratedObject thisObj;
          nextIndex = BytesIteratorSlotNextIndex thisObj;
          itemKind = BytesIteratorSlotItemKind thisObj;
          len = int (GetArrayBufferByteLength arrayBuffer)
      in if sint nextIndex \<ge> len then
           (if out_of_memory cx then Next False None thisObj
            else Next True (Some (ObjectValue (PlainObject [(''done'', BooleanValue True)])))
                   thisObj)
         else
           (let thisObj' = thisObj\<lparr>BytesIteratorSlotNextIndex := nextIndex + 1\<rparr>
            in if out_of_memory cx then Next False None thisObj'
               else if itemKind = ITEM_KIND_VALUE then
                 (case read_byte (contents arrayBuffer) (sint nextIndex) of
                    Inl ub \<Rightarrow> NextUndefined ub
                  | Inr byte \<Rightarrow>
                      Next True (Some (ObjectValue (PlainObject
                        [(''done'', BooleanValue False), (''value'', Int32Value (ucast byte))])))
                        thisObj')
               else if itemKind = ITEM_KIND_KEY_AND_VALUE then
                 (case read_byte (contents arrayBuffer) (sint nextIndex) of
                    Inl ub \<Rightarrow> NextUndefined ub
                  | Inr byte \<Rightarrow>
                      Next True (Some (ObjectValue (PlainObject
                        [(''done'', BooleanValue False),
                         (''value'', ObjectValue (ArrayObject
                            [Int32Value nextIndex, Int32Value (ucast byte)]))])))
                        thisObj')
               else
                 Next True (Some (ObjectValue (PlainObject
                   [(''done'', BooleanValue False), (''value'', Int32Value nextIndex)])))
                   thisObj'))"

text \<open>
  \<^verbatim>\<open>array_iterator_func\<close>: the class is defined on the global object at the first
  request, then an iterator is constructed and its slots are set.
\<close>

definition array_iterator_func ::
  "JSContext \<Rightarrow> Proxy \<Rightarrow> int32_t \<Rightarrow> BytesIterator option \<times> JSContext" where
  "array_iterator_func cx proxy itemKind =
     (if out_of_memory cx then (None, cx)
      else (Some \<lparr>BytesIteratorSlotIteratedObject = OtherSlot proxy,
                  BytesIteratorSlotNextIndex = 0,
                  BytesIteratorSlotItemKind = itemKind\<rparr>,
            cx\<lparr>BytesIterator_defined := True\<rparr>))"

definition array_entries :: "JSContext \<Rightarrow> Proxy \<Rightarrow> BytesIterator option \<times> JSContext" where
  "array_entries cx proxy = array_iterator_func cx proxy ITEM_KIND_KEY_AND_VALUE"

definition array_keys :: "JSContext \<Rightarrow> Proxy \<Rightarrow> BytesIterator option \<times> JSContext" where
  "array_keys cx proxy = array_iterator_func cx proxy ITEM_KIND_KEY"

definition array_values :: "JSContext \<Rightarrow> Proxy \<Rightarrow> BytesIterator option \<times> JSContext" where
  "array_values cx proxy = array_iterator_func cx proxy ITEM_KIND_VALUE"

text \<open>The results of \<open>n\<close> calls of \<^verbatim>\<open>next\<close>, each on the iterator as the call before
  left it; nothing follows undefined behaviour.\<close>

fun next_calls :: "JSContext \<Rightarrow> nat \<Rightarrow> BytesIterator \<Rightarrow> next_result list" where
  "next_calls cx 0 thisObj = []"
| "next_calls cx (Suc n) thisObj =
     (case iterator_next cx thisObj of
        Next ok rval thisObj' \<Rightarrow> Next ok rval thisObj' # next_calls cx n thisObj'
      | NextUndefined ub \<Rightarrow> [NextUndefined ub])"

text \<open>
  The iterators there are: one as \<^verbatim>\<open>array_iterator_func\<close> sets its slots, over a buffer
  and of an item kind, and one that a call of \<^verbatim>\<open>next\<close> has left.
\<close>

inductive adapter :: "ArrayBuffer \<Rightarrow> int32_t \<Rightarrow> BytesIterator \<Rightarrow> bool"
  for buf :: ArrayBuffer and kind :: int32_t where
  created:
    "adapter buf kind
       \<lparr>BytesIteratorSlotIteratedObject = buf, BytesIteratorSlotNextIndex = 0,
        BytesIteratorSlotItemKind = kind\<rparr>"
| advanced:
    "adapter buf kind thisObj \<Longrightarrow> iterator_next cx thisObj = Next ok rval thisObj'
       \<Longrightarrow> adapter buf kind thisObj'"

subsection \<open>\<^verbatim>\<open>PyBytesProxyHandler::set\<close>\<close>

text \<open>\<^verbatim>\<open>JS::ObjectOpResult\<close>: not yet set, success, or a failure code.\<close>

datatype ObjectOpResult = Uninitialized | OkCode | JSMSG_READ_ONLY

text \<open>The conversion \<^verbatim>\<open>%.100s\<close> of \<^verbatim>\<open>PyErr_Format\<close>: the first 100 bytes of the
  C string, or all of them when it has fewer, decoded with replacement. A character that
  the cut at 100 bytes divides becomes one replacement character.\<close>

definition fmt_s100 :: "string \<Rightarrow> string" where
  "fmt_s100 s = PyUnicode_DecodeUTF8_replace (take 100 (c_str s))"

text \<open>
  The handler \<^verbatim>\<open>set\<close> (lines 245 to 258), here \<open>set_handler\<close>, \<open>set\<close> being the
  elements of a list. It runs on the proxy and the host state and leaves both; it returns what the
  engine sees: the \<^verbatim>\<open>bool\<close> and the \<^verbatim>\<open>ObjectOpResult\<close>
  (\<^verbatim>\<open>failReadOnly\<close> records the code and returns \<^verbatim>\<open>true\<close>). The key, the value
  and the receiver are not looked at.
\<close>

definition set_handler ::
  "Proxy \<times> PyState \<Rightarrow> JSId \<Rightarrow> JSValue \<Rightarrow> JSValue
     \<Rightarrow> (bool \<times> ObjectOpResult) \<times> (Proxy \<times> PyState)" where
  "set_handler st jsid v receiver =
     (let proxy = fst st; py = snd st;
          self = PyObjectSlot proxy;
          py' = PyErr_SetString PyExc_TypeError
                  ([CHR 0x27] @ fmt_s100 (tp_name self)
                     @ [CHR 0x27] @ '' object has only read-only attributes'') py
      in ((True, JSMSG_READ_ONLY), (proxy, py')))"

subsection \<open>\<^verbatim>\<open>PyBytesProxyHandler::getOwnPropertyDescriptor\<close>\<close>

record JSMethodDef =
  name :: string
  call :: JSNative
  nargs :: nat

text \<open>\<^verbatim>\<open>array_methods\<close>; the entry of three \<^verbatim>\<open>NULL\<close>s that ends the array is the end
  of the list.\<close>

definition array_methods :: "JSMethodDef list" where
  "array_methods =
     [\<lparr>name = ''toString'', call = fn_array_toString, nargs = 0\<rparr>,
      \<lparr>name = ''valueOf'', call = fn_array_valueOf, nargs = 0\<rparr>,
      \<lparr>name = ''entries'', call = fn_array_entries, nargs = 0\<rparr>,
      \<lparr>name = ''keys'', call = fn_array_keys, nargs = 0\<rparr>,
      \<lparr>name = ''values'', call = fn_array_values, nargs = 0\<rparr>]"

text \<open>\<^verbatim>\<open>JS_NewFunction\<close>: a new function object, or \<^verbatim>\<open>NULL\<close> when the engine is out
  of memory.\<close>

definition JS_NewFunction :: "JSContext \<Rightarrow> JSNative \<Rightarrow> JSObject option \<times> JSContext" where
  "JS_NewFunction cx native =
     (if out_of_memory cx then (None, cx)
      else (Some (FunctionObject (length (function_objects cx))),
            cx\<lparr>function_objects := function_objects cx @ [native]\<rparr>))"

text \<open>
  What a call of the handler comes to: it returns (the \<^verbatim>\<open>bool\<close> and the descriptor
  put in \<^verbatim>\<open>desc\<close>, if any), or it ends in the call
  \<^verbatim>\<open>handleGetOwnPropertyDescriptor(cx, id, desc, PyObject_GetAttr(self, idToKey(cx, id)))\<close>
  of the base handler, or it runs into undefined behaviour.
\<close>

datatype gopd_result =
  Returned bool "PropertyDescriptor option"
  | GetAttr_fallback PyObject JSId
  | Undefined UndefinedBehaviour

text \<open>
  Modelled from the spec: \<^verbatim>\<open>idToIndex\<close> is declared in a header that is not among
  the sources; the handler calls it with the key alone (\<^verbatim>\<open>idToIndex(cx, id, &index)\<close>),
  so it cannot compare the index with the length of any buffer. The spec has it "parse
  the accessed key as an integer index".
\<close>

fun idToIndex :: "JSId \<Rightarrow> nat option" where
  "idToIndex (IdInt i) = Some i"
| "idToIndex _ = None"

text \<open>Lines 265 to 285: the loop over \<^verbatim>\<open>array_methods\<close>, up to the entry whose
  name is the key.\<close>

fun find_method :: "JSMethodDef list \<Rightarrow> string \<Rightarrow> JSMethodDef option" where
  "find_method [] s = None"
| "find_method (m # ms) s = (if s = name m then Some m else find_method ms s)"

definition new_function_descriptor ::
  "JSContext \<Rightarrow> JSNative \<Rightarrow> gopd_result \<times> JSContext" where
  "new_function_descriptor cx native =
     (case JS_NewFunction cx native of
        (None, cx') \<Rightarrow> (Returned False None, cx')
      | (Some funObj, cx') \<Rightarrow>
          (Returned True (Some (Data (ObjectValue funObj) [Enumerable])), cx'))"

text \<open>Each part of the handler gives \<open>Some\<close> result when it returns and \<open>None\<close> when
  control goes on to the next part.\<close>

definition method_part :: "JSContext \<Rightarrow> Proxy \<Rightarrow> JSId \<Rightarrow> (gopd_result \<times> JSContext) option" where
  "method_part cx proxy jsid =
     (case jsid of
        IdString s \<Rightarrow>
          (case find_method array_methods s of
             Some m \<Rightarrow> Some (new_function_descriptor cx (call m))
           | None \<Rightarrow> None)
      | _ \<Rightarrow> None)"

text \<open>Lines 287 to 363. \<^verbatim>\<open>JS::Int32Value(byteLength)\<close> converts the \<^verbatim>\<open>size_t\<close> to
  \<^verbatim>\<open>int32_t\<close>.\<close>

definition property_part :: "JSContext \<Rightarrow> Proxy \<Rightarrow> JSId \<Rightarrow> (gopd_result \<times> JSContext) option" where
  "property_part cx proxy jsid =
     (case jsid of
        IdString s \<Rightarrow>
          if s = ''length'' \<or> s = ''byteLength'' then
            (let byteLength = GetArrayBufferByteLength (OtherSlot proxy)
             in Some (Returned True (Some (Data (Int32Value (of_nat byteLength)) [])), cx))
          else if s = ''buffer'' then
            Some (Returned True
              (Some (Data (ObjectValue (ArrayBufferObject (address (OtherSlot proxy)))) [])), cx)
          else if s = ''BYTES_PER_ELEMENT'' then
            Some (Returned True (Some (Data (Int32Value 1) [])), cx)
          else if s = ''byteOffset'' then
            Some (Returned True (Some (Data (Int32Value 0) [])), cx)
          else if s = ''constructor'' then
            (if out_of_memory cx then Some (Returned False None, cx)
             else
               (case Uint8Array_prototype_constructor cx of
                  ObjectValue ctor \<Rightarrow>
                    Some (Returned True (Some (Data (ObjectValue ctor) [Enumerable])), cx)
                | _ \<Rightarrow> Some (Undefined NotAnObject, cx)))
          else None
      | _ \<Rightarrow> None)"

text \<open>Lines 365 to 382: a symbol never goes further than this part.\<close>

definition symbol_part :: "JSContext \<Rightarrow> Proxy \<Rightarrow> JSId \<Rightarrow> (gopd_result \<times> JSContext) option" where
  "symbol_part cx proxy jsid =
     (case jsid of
        IdSymbol code \<Rightarrow>
          if code = sym_iterator then Some (new_function_descriptor cx fn_array_values)
          else Some (Returned True None, cx)
      | _ \<Rightarrow> None)"

text \<open>Lines 384 to 401: \<^verbatim>\<open>data[index]\<close> is read whenever \<^verbatim>\<open>idToIndex\<close> succeeds.\<close>

definition item_part :: "JSContext \<Rightarrow> Proxy \<Rightarrow> JSId \<Rightarrow> (gopd_result \<times> JSContext) option" where
  "item_part cx proxy jsid =
     (case idToIndex jsid of
        Some index \<Rightarrow>
          (case read_byte (contents (OtherSlot proxy)) (int index) of
             Inl ub \<Rightarrow> Some (Undefined ub, cx)
           | Inr byte \<Rightarrow> Some (Returned True (Some (Data (Int32Value (ucast byte)) [])), cx))
      | None \<Rightarrow> None)"

definition getOwnPropertyDescriptor ::
  "JSContext \<Rightarrow> Proxy \<Rightarrow> JSId \<Rightarrow> gopd_result \<times> JSContext" where
  "getOwnPropertyDescriptor cx proxy jsid =
     (case method_part cx proxy jsid of
        Some r \<Rightarrow> r
      | None \<Rightarrow>
     (case property_part cx proxy jsid of
        Some r \<Rightarrow> r
      | None \<Rightarrow>
     (case symbol_part cx proxy jsid of
        Some r \<Rightarrow> r
      | None \<Rightarrow>
     (case item_part cx proxy jsid of
        Some r \<Rightarrow> r
      | None \<Rightarrow> (GetAttr_fallback (PyObjectSlot proxy) jsid, cx)))))"

section \<open>Raising an engine exception in the host\<close>

definition newline :: string where
  "newline = [CHR 0x0A]"

text \<open>The text written to \<^verbatim>\<open>outStrStream\<close> (lines 49 to 76).\<close>

definition report_lines :: "JSErrorReport option \<Rightarrow> string" where
  "report_lines errorReport =
     (case errorReport of
        None \<Rightarrow> []
      | Some r \<Rightarrow>
          (let offsetSpaces = replicate (tokenOffset r) CHR '' '';
               linebuf = (case linebuf r of Some l \<Rightarrow> l | None \<Rightarrow> [])
           in ''Error in file '' @ filename r @ '', on line '' @ to_string (lineno r) @ '':''
                @ newline
                @ (if linebuf \<noteq> [] then linebuf @ newline @ offsetSpaces @ ''^'' @ newline
                   else [])))"

definition exception_text :: "PendingException \<Rightarrow> string" where
  "exception_text ex =
     report_lines (report ex) @ toStringResult ex @ newline
       @ (case stack ex of
            Some stackStr \<Rightarrow> ''Stack Trace: '' @ newline @ stackStr
          | None \<Rightarrow> [])"

definition setSpiderMonkeyException :: "JSContext \<Rightarrow> PyState \<Rightarrow> PyState" where
  "setSpiderMonkeyException cx py =
     (case pending_exception cx of
        None \<Rightarrow>
          PyErr_SetString SpiderMonkeyError
            ''Spidermonkey failed, but spidermonkey did not set an exception.'' py
      | Some ex \<Rightarrow>
          if \<not> retrievable ex then
            PyErr_SetString SpiderMonkeyError
              ''Spidermonkey set an exception, but was unable to retrieve it.'' py
          else if \<not> report_init ex then
            PyErr_SetString SpiderMonkeyError
              ''Spidermonkey set an exception, but could not initialize the error report.'' py
          else PyErr_SetString SpiderMonkeyError (exception_text ex) py)"

section \<open>\<^verbatim>\<open>eval\<close>\<close>

text \<open>The host values \<^verbatim>\<open>eval\<close> receives and returns. A date carries the seven
  arguments of \<^verbatim>\<open>PyDateTime_FromDateAndTime\<close> as the source computes them.\<close>

datatype PyValue =
  PyNone | PyBool bool | PyLong int | PyFloat double | PyUnicode string | PyBytes "uint8_t list"
  | PyDateTime double double double double double double double

text \<open>
  The engine calls of \<^verbatim>\<open>eval\<close>, as functions of what they are given:
  \<^verbatim>\<open>source.init\<close> (does it succeed), \<^verbatim>\<open>JS::Evaluate\<close> (the value of the script, or
  failure with the exception left pending, if any), \<^verbatim>\<open>JS::ObjectIsDate\<close> (does the call
  succeed) and \<^verbatim>\<open>JS_CallFunctionName\<close> (the value put in its last argument).
\<close>

record Engine =
  source_init :: "string \<Rightarrow> bool"
  Evaluate :: "string \<Rightarrow> PendingException option + JSValue"
  ObjectIsDate :: "JSObject \<Rightarrow> bool"
  JS_CallFunctionName :: "JSObject \<Rightarrow> string \<Rightarrow> JSValue"

text \<open>The state \<^verbatim>\<open>eval\<close> works on: the context, the host state, the association
  table, and the addresses of the next \<^verbatim>\<open>PyType\<close> and the next persistent root that
  \<^verbatim>\<open>new\<close> gives.\<close>

record Bridge =
  global_cx :: JSContext
  host :: PyState
  memo :: PyToGC_table
  next_PyType :: PyType_ptr
  next_GCThing :: GCThing_ptr

datatype eval_result = PyReturn "PyValue option" | EvalUndefined UndefinedBehaviour

text \<open>\<^verbatim>\<open>isNumber\<close> and \<^verbatim>\<open>toNumber\<close> of \<^verbatim>\<open>JS::Value\<close>: a number is an
  \<^verbatim>\<open>int32\<close> or a double, and \<^verbatim>\<open>toNumber\<close> gives a double for both.\<close>

fun isNumber :: "JSValue \<Rightarrow> bool" where
  "isNumber (Int32Value i) = True"
| "isNumber (DoubleValue d) = True"
| "isNumber _ = False"

fun toNumber :: "JSValue \<Rightarrow> double option" where
  "toNumber (Int32Value i) = Some (Finite (real_of_int (sint i)))"
| "toNumber (DoubleValue d) = Some d"
| "toNumber _ = None"

fun plus_one :: "double \<Rightarrow> double" where
  "plus_one (Finite r) = Finite (r + 1)"
| "plus_one d = d"

text \<open>
  The branch for objects (lines 137 to 164). The test is
  \<^verbatim>\<open>JS::ObjectIsDate(cx, obj, isDate) && isDate\<close>, where \<^verbatim>\<open>isDate\<close> is the pointer
  that \<^verbatim>\<open>new bool\<close> gave: it holds whenever the call succeeds. \<^verbatim>\<open>toNumber\<close> of a
  value that is not a number is not defined.
\<close>

definition date_fields :: "Engine \<Rightarrow> JSObject \<Rightarrow> double option list" where
  "date_fields engine obj =
     map (\<lambda>f. toNumber (JS_CallFunctionName engine obj f))
       [''getFullYear'', ''getMonth'', ''getDate'', ''getHours'', ''getMinutes'',
        ''getSeconds'', ''getMilliseconds'']"

definition object_branch :: "Engine \<Rightarrow> JSObject \<Rightarrow> eval_result option" where
  "object_branch engine obj =
     (if ObjectIsDate engine obj \<and> True then
        (case date_fields engine obj of
           [Some year, Some month, Some day, Some hour, Some minute, Some second, Some usecond]
             \<Rightarrow> Some (PyReturn (Some
                  (PyDateTime year (plus_one month) day hour minute second usecond)))
         | _ \<Rightarrow> Some (EvalUndefined NotANumber))
      else None)"

text \<open>
  \<^verbatim>\<open>new FloatType(rval->toNumber())\<close>, returned through \<^verbatim>\<open>getPyObject()\<close>. The
  classes \<^verbatim>\<open>FloatType\<close>, \<^verbatim>\<open>BoolType\<close> and \<^verbatim>\<open>StrType\<close> are declared in
  headers that are not among the sources; by their names and constructors they wrap a
  host float, a host bool and a host string.
\<close>

definition FloatType :: "double option \<Rightarrow> eval_result" where
  "FloatType number =
     (case number of
        Some d \<Rightarrow> PyReturn (Some (PyFloat d))
      | None \<Rightarrow> EvalUndefined NotANumber)"

definition not_handled :: "string \<Rightarrow> string" where
  "not_handled kind = kind @ '' type is not handled by PythonMonkey yet''"

text \<open>
  \<^verbatim>\<open>eval\<close> (lines 87 to 175) on its first argument. The result \<open>PyReturn None\<close> is the return of
  \<^verbatim>\<open>NULL\<close>, with the error indicator set; \<^verbatim>\<open>Py_RETURN_NONE\<close> is
  \<open>PyReturn (Some PyNone)\<close>.
\<close>

definition eval :: "Engine \<Rightarrow> Bridge \<Rightarrow> PyValue \<Rightarrow> eval_result \<times> Bridge" where
  "eval engine st arg =
     (case arg of
        PyUnicode code \<Rightarrow>
          if \<not> source_init engine (c_str code) then
            (PyReturn None,
             st\<lparr>host := PyErr_SetString PyExc_RuntimeError
                ''Spidermonkey could not initialize with given JS code.'' (host st)\<rparr>)
          else
            (let rval = next_GCThing st; st = st\<lparr>next_GCThing := Suc rval\<rparr>
             in case Evaluate engine (c_str code) of
                  Inl pending \<Rightarrow>
                    (PyReturn None,
                     st\<lparr>global_cx := (global_cx st)\<lparr>pending_exception := pending\<rparr>,
                        host := PyErr_SetString PyExc_RuntimeError
                          ''Spidermonkey could not evaluate the given JS code.'' (host st)\<rparr>)
                | Inr v \<Rightarrow>
                    (case v of
                       UndefinedValue \<Rightarrow>
                         (PyReturn (Some PyNone),
                          st\<lparr>host := printf (not_handled ''undefined'') (host st)\<rparr>)
                     | NullValue \<Rightarrow>
                         (PyReturn (Some PyNone),
                          st\<lparr>host := printf (not_handled ''null'') (host st)\<rparr>)
                     | BooleanValue b \<Rightarrow> (PyReturn (Some (PyBool b)), st)
                     | Int32Value i \<Rightarrow> (FloatType (toNumber v), st)
                     | DoubleValue d \<Rightarrow> (FloatType (toNumber v), st)
                     | StringValue s \<Rightarrow>
                         (let returnValue = next_PyType st
                          in (PyReturn (Some (PyUnicode s)),
                              st\<lparr>next_PyType := Suc returnValue,
                                 memo := memoizePyTypeAndGCThing (memo st) returnValue rval\<rparr>))
                     | SymbolValue \<Rightarrow>
                         (PyReturn (Some PyNone),
                          st\<lparr>host := printf (not_handled ''symbol'') (host st)\<rparr>)
                     | BigIntValue \<Rightarrow>
                         (PyReturn (Some PyNone),
                          st\<lparr>host := printf (not_handled ''bigint'') (host st)\<rparr>)
                     | ObjectValue obj \<Rightarrow>
                         (case object_branch engine obj of
                            Some r \<Rightarrow> (r, st)
                          | None \<Rightarrow> (PyReturn (Some PyNone), st))
                     | MagicValue \<Rightarrow>
                         (PyReturn (Some PyNone),
                          st\<lparr>host := printf (not_handled ''magic'') (host st)\<rparr>)))
      | _ \<Rightarrow>
          (PyReturn None,
           st\<lparr>host := PyErr_SetString PyExc_TypeError
              ''pythonmonkey.eval expects a string as its first argument'' (host st)\<rparr>))"

section \<open>What the statements are written with\<close>

text \<open>The host is told of a read-only violation that names a type: the error indicator
  holds a \<^verbatim>\<open>TypeError\<close> whose message contains the name and speaks of read-only
  attributes.\<close>

definition read_only_error_naming :: "string \<Rightarrow> PyState \<Rightarrow> bool" where
  "read_only_error_naming type_name py =
     (case PyErr_Occurred py of
        Some (exc, msg) \<Rightarrow>
          exc = PyExc_TypeError \<and> sublist type_name msg \<and> sublist ''read-only attributes'' msg
      | None \<Rightarrow> False)"

text \<open>The bytes joined by commas, each in decimal.\<close>

fun comma_joined :: "uint8_t list \<Rightarrow> string" where
  "comma_joined [] = []"
| "comma_joined [b] = to_string (unat b)"
| "comma_joined (b # bs) = to_string (unat b) @ '','' @ comma_joined bs"

text \<open>
  The precedence of property resolution in the words of the specification: the named
  methods, then the synthetic properties, then the iteration symbol, then an index within
  the buffer, and for every other key the attribute lookup on the wrapped object.
\<close>

definition resolution_by_precedence ::
  "JSContext \<Rightarrow> Proxy \<Rightarrow> JSId \<Rightarrow> gopd_result \<times> JSContext" where
  "resolution_by_precedence cx proxy jsid =
     (if jsid \<in> IdString ` {''toString'', ''valueOf'', ''entries'', ''keys'', ''values''} then
        (case method_part cx proxy jsid of Some r \<Rightarrow> r
         | None \<Rightarrow> (GetAttr_fallback (PyObjectSlot proxy) jsid, cx))
      else if jsid \<in> IdString ` {''length'', ''byteLength'', ''buffer'', ''BYTES_PER_ELEMENT'',
                ''byteOffset'', ''constructor''} then
        (case property_part cx proxy jsid of Some r \<Rightarrow> r
         | None \<Rightarrow> (GetAttr_fallback (PyObjectSlot proxy) jsid, cx))
      else if jsid = IdSymbol sym_iterator then new_function_descriptor cx fn_array_values
      else
        (case idToIndex jsid of
           Some i \<Rightarrow>
             if i < GetArrayBufferByteLength (OtherSlot proxy) then
               (Returned True
                  (Some (Data (Int32Value (ucast (contents (OtherSlot proxy) ! i))) [])), cx)
             else (GetAttr_fallback (PyObjectSlot proxy) jsid, cx)
         | None \<Rightarrow> (GetAttr_fallback (PyObjectSlot proxy) jsid, cx)))"

section \<open>Examples\<close>

text \<open>A fresh context of a realm whose \<^verbatim>\<open>Uint8Array\<close> constructor is the engine object
  1, a host state with no error, and proxies over the bytes 10, 20, 30: one of a
  \<^verbatim>\<open>bytes\<close> object, one of an object whose type has a name of 101 letters. The
  last proxy is over \<open>2 ^ 31\<close> bytes.\<close>

definition cx0 :: JSContext where
  "cx0 = \<lparr>pending_exception = None, function_objects = [], BytesIterator_defined = False,
          Uint8Array_prototype_constructor = ObjectValue (EngineObject 1),
          out_of_memory = False\<rparr>"

definition py0 :: PyState where
  "py0 = \<lparr>PyErr_Occurred = None, stdout = []\<rparr>"

definition buffer0 :: ArrayBuffer where
  "buffer0 = \<lparr>address = 4096, contents = [10, 20, 30]\<rparr>"

definition proxy0 :: Proxy where
  "proxy0 = \<lparr>PyObjectSlot = \<lparr>tp_name = ''bytes''\<rparr>, OtherSlot = buffer0\<rparr>"

definition long_named_proxy :: Proxy where
  "long_named_proxy =
     \<lparr>PyObjectSlot = \<lparr>tp_name = replicate 100 CHR ''T'' @ ''z''\<rparr>, OtherSlot = buffer0\<rparr>"

text \<open>A proxy of an object whose type has the name \<^verbatim>\<open>a\<close> followed by 50 times the
  letter e with acute accent (the bytes C3 A9): 51 characters, 101 bytes.\<close>

definition accented_proxy :: Proxy where
  "accented_proxy =
     \<lparr>PyObjectSlot = \<lparr>tp_name = ''a'' @ concat (replicate 50 [CHR 0xC3, CHR 0xA9])\<rparr>,
      OtherSlot = buffer0\<rparr>"

definition huge_buffer :: ArrayBuffer where
  "huge_buffer = \<lparr>address = 4096, contents = replicate (2 ^ 31) 0\<rparr>"

definition huge_proxy :: Proxy where
  "huge_proxy = \<lparr>PyObjectSlot = \<lparr>tp_name = ''bytes''\<rparr>, OtherSlot = huge_buffer\<rparr>"

text \<open>The object \<^verbatim>\<open>next\<close> returns at the end, and the one it returns with a value.\<close>

definition done_result :: JSValue where
  "done_result = ObjectValue (PlainObject [(''done'', BooleanValue True)])"

definition value_result :: "JSValue \<Rightarrow> JSValue" where
  "value_result v = ObjectValue (PlainObject [(''done'', BooleanValue False), (''value'', v)])"

text \<open>An iterator of the keys of the buffer of \<open>2 ^ 31\<close> bytes, with its cursor at the
  last index an \<^verbatim>\<open>int32_t\<close> holds.\<close>

definition huge_iterator :: BytesIterator where
  "huge_iterator =
     \<lparr>BytesIteratorSlotIteratedObject = huge_buffer,
      BytesIteratorSlotNextIndex = 2147483647,
      BytesIteratorSlotItemKind = ITEM_KIND_KEY\<rparr>"

text \<open>The name \<^verbatim>\<open>eval\<close> prints for a value it does not convert.\<close>

fun unhandled_kind :: "JSValue \<Rightarrow> string option" where
  "unhandled_kind UndefinedValue = Some ''undefined''"
| "unhandled_kind NullValue = Some ''null''"
| "unhandled_kind SymbolValue = Some ''symbol''"
| "unhandled_kind BigIntValue = Some ''bigint''"
| "unhandled_kind MagicValue = Some ''magic''"
| "unhandled_kind _ = None"

text \<open>
  The bridge before any call; an engine whose every script has the value \<open>v\<close>; the
  exception the script \<^verbatim>\<open>throw new Error(1)\<close> leaves pending, and an engine whose every
  script throws it.
\<close>

definition bridge0 :: Bridge where
  "bridge0 = \<lparr>global_cx = cx0, host = py0, memo = [], next_PyType = 0, next_GCThing = 0\<rparr>"

definition constant_engine :: "JSValue \<Rightarrow> Engine" where
  "constant_engine v =
     \<lparr>source_init = (\<lambda>src. True), Evaluate = (\<lambda>src. Inr v),
      ObjectIsDate = (\<lambda>obj. False), JS_CallFunctionName = (\<lambda>obj f. UndefinedValue)\<rparr>"

definition thrown :: PendingException where
  "thrown =
     \<lparr>retrievable = True, report_init = True,
      report = Some \<lparr>filename = ''noname'', lineno = 1, linebuf = None, tokenOffset = 0\<rparr>,
      toStringResult = ''Error: 1'',
      stack = Some (''@noname:1:7'' @ newline)\<rparr>"

definition throwing_engine :: Engine where
  "throwing_engine =
     \<lparr>source_init = (\<lambda>src. True), Evaluate = (\<lambda>src. Inl (Some thrown)),
      ObjectIsDate = (\<lambda>obj. False), JS_CallFunctionName = (\<lambda>obj f. UndefinedValue)\<rparr>"

section \<open>Properties of the sweep hook\<close>

lemma std_find_iff: "std_find v rval \<longleftrightarrow> rval \<in> set v"
  by (induction v) auto

lemma found_loop_iff:
  "found_loop t it k rval \<longleftrightarrow> (\<exists>j. k \<le> j \<and> j < length t \<and> j \<noteq> it \<and> rval \<in> set (snd (t ! j)))"
proof (induction t it k rval rule: found_loop.induct)
  case (1 t it k rval)
  show ?case
  proof (cases "k < length t")
    case False
    then show ?thesis by (subst found_loop.simps) auto
  next
    case True
    show ?thesis
    proof (cases "k \<noteq> it \<and> std_find (snd (t ! k)) rval")
      case hit: True
      then show ?thesis using True by (subst found_loop.simps) (auto simp: std_find_iff)
    next
      case miss: False
      have "found_loop t it k rval = found_loop t it (Suc k) rval"
        using True miss by (subst found_loop.simps) auto
      also have "\<dots> \<longleftrightarrow> (\<exists>j. Suc k \<le> j \<and> j < length t \<and> j \<noteq> it \<and> rval \<in> set (snd (t ! j)))"
        using "1.IH" True miss by blast
      also have "\<dots> \<longleftrightarrow> (\<exists>j. k \<le> j \<and> j < length t \<and> j \<noteq> it \<and> rval \<in> set (snd (t ! j)))"
        using miss by (metis Suc_leD Suc_leI le_neq_implies_less std_find_iff)
      finally show ?thesis .
    qed
  qed
qed

lemma delete_loop_eq:
  "delete_loop t it rvals del = del @ filter (\<lambda>r. \<not> found_loop t it 0 r) rvals"
  by (induction rvals arbitrary: del) (auto simp: Let_def)

lemma others_zip:
  "(\<exists>j<length (xs @ y # ys). j \<noteq> length xs \<and> P ((xs @ y # ys) ! j))
     \<longleftrightarrow> (\<exists>e\<in>set (xs @ ys). P e)"
proof
  assume "\<exists>j<length (xs @ y # ys). j \<noteq> length xs \<and> P ((xs @ y # ys) ! j)"
  then obtain j where j: "j < length (xs @ y # ys)" "j \<noteq> length xs" "P ((xs @ y # ys) ! j)"
    by blast
  show "\<exists>e\<in>set (xs @ ys). P e"
  proof (cases "j < length xs")
    case True
    then have "(xs @ y # ys) ! j = xs ! j" by (simp add: nth_append)
    then show ?thesis using True j(3) by auto
  next
    case False
    define k where "k = j - Suc (length xs)"
    have k: "j = length xs + Suc k" "k < length ys"
      using False j(1,2) by (auto simp: k_def)
    then have "(xs @ y # ys) ! j = ys ! k" by (simp add: nth_append)
    then show ?thesis using k(2) j(3) by auto
  qed
next
  assume "\<exists>e\<in>set (xs @ ys). P e"
  then obtain e where e: "e \<in> set xs \<or> e \<in> set ys" "P e" by auto
  from e(1) show "\<exists>j<length (xs @ y # ys). j \<noteq> length xs \<and> P ((xs @ y # ys) ! j)"
  proof
    assume "e \<in> set xs"
    then obtain i where i: "i < length xs" "xs ! i = e" by (auto simp: in_set_conv_nth)
    then have "(xs @ y # ys) ! i = e" by (simp add: nth_append)
    then show ?thesis using i(1) e(2) by (intro exI [of _ i]) auto
  next
    assume "e \<in> set ys"
    then obtain i where i: "i < length ys" "ys ! i = e" by (auto simp: in_set_conv_nth)
    then have "(xs @ y # ys) ! (length xs + Suc i) = e" by (simp add: nth_append)
    then show ?thesis using i(1) e(2) by (intro exI [of _ "length xs + Suc i"]) auto
  qed
qed

lemma sweep_body_zip:
  "sweep_body heap \<lparr>pyIt = length kept, PyTypeToGCThing = kept @ e # rest, deleted = d\<rparr> =
     (if host_unreachable heap e then
        \<lparr>pyIt = length kept, PyTypeToGCThing = kept @ rest,
         deleted = d @ filter (\<lambda>r. \<forall>e'\<in>set (kept @ rest). \<not> lists_handle e' r) (snd e)\<rparr>
      else \<lparr>pyIt = Suc (length kept), PyTypeToGCThing = kept @ e # rest, deleted = d\<rparr>)"
proof -
  have "found_loop (kept @ e # rest) (length kept) 0 r \<longleftrightarrow> (\<exists>e'\<in>set (kept @ rest). lists_handle e' r)"
    for r
    unfolding found_loop_iff lists_handle_def using others_zip [of kept e rest "\<lambda>x. r \<in> set (snd x)"]
    by simp
  then show ?thesis
    by (simp add: sweep_body_def host_unreachable_def erase_def delete_loop_eq)
qed

lemma sweep_loop_zip:
  "\<forall>e\<in>set kept. \<not> host_unreachable heap e \<Longrightarrow>
   sweep_loop heap \<lparr>pyIt = length kept, PyTypeToGCThing = kept @ rest, deleted = d\<rparr> = s' \<Longrightarrow>
   PyTypeToGCThing s' = kept @ filter (\<lambda>e. \<not> host_unreachable heap e) rest \<and>
   set (deleted s') = set d \<union>
     {r. (\<exists>e\<in>set rest. host_unreachable heap e \<and> lists_handle e r) \<and>
         (\<forall>e\<in>set (kept @ rest). lists_handle e r \<longrightarrow> host_unreachable heap e)}"
proof (induction rest arbitrary: kept d)
  case Nil
  then show ?case by (subst (asm) sweep_loop.simps) auto
next
  case (Cons e rest)
  show ?case
  proof (cases "host_unreachable heap e")
    case True
    let ?d = "d @ filter (\<lambda>r. \<forall>e'\<in>set (kept @ rest). \<not> lists_handle e' r) (snd e)"
    have "sweep_loop heap \<lparr>pyIt = length kept, PyTypeToGCThing = kept @ rest, deleted = ?d\<rparr> = s'"
      using Cons.prems(2) True by (subst (asm) sweep_loop.simps) (simp add: sweep_body_zip)
    from Cons.IH [OF Cons.prems(1) this] show ?thesis
      using True Cons.prems(1) by (auto simp: lists_handle_def)
  next
    case False
    have "sweep_loop heap \<lparr>pyIt = length (kept @ [e]), PyTypeToGCThing = (kept @ [e]) @ rest, deleted = d\<rparr> = s'"
      using Cons.prems(2) False by (subst (asm) sweep_loop.simps) (simp add: sweep_body_zip)
    moreover have "\<forall>x\<in>set (kept @ [e]). \<not> host_unreachable heap x"
      using Cons.prems(1) False by auto
    ultimately show ?thesis
      using Cons.IH [of "kept @ [e]" d] False by auto
  qed
qed

lemma sweep_state_zip:
  assumes "pyIt s < length (PyTypeToGCThing s)"
  shows "s = \<lparr>pyIt = length (take (pyIt s) (PyTypeToGCThing s)),
              PyTypeToGCThing = take (pyIt s) (PyTypeToGCThing s)
                @ (PyTypeToGCThing s ! pyIt s) # drop (Suc (pyIt s)) (PyTypeToGCThing s),
              deleted = deleted s\<rparr>"
  using assms by (simp add: id_take_nth_drop [symmetric] min_def)

lemma sweep_body_at:
  assumes "pyIt s < length (PyTypeToGCThing s)"
  shows "sweep_body heap s =
     (let t = PyTypeToGCThing s; it = pyIt s; e = t ! it
      in if host_unreachable heap e then
           \<lparr>pyIt = it, PyTypeToGCThing = erase t it,
            deleted = deleted s
              @ filter (\<lambda>rval. \<not> (\<exists>j<length t. j \<noteq> it \<and> lists_handle (t ! j) rval)) (snd e)\<rparr>
         else s\<lparr>pyIt := Suc it\<rparr>)"
  by (simp add: sweep_body_def host_unreachable_def delete_loop_eq found_loop_iff
      lists_handle_def Let_def)

lemma sweep_body_keeps_inv:
  assumes "pyIt s < length (PyTypeToGCThing s)"
    and "\<forall>rval\<in>set (deleted s). \<forall>e\<in>set (PyTypeToGCThing s). \<not> lists_handle e rval"
  shows "\<forall>rval\<in>set (deleted (sweep_body heap s)).
           \<forall>e\<in>set (PyTypeToGCThing (sweep_body heap s)). \<not> lists_handle e rval"
proof -
  let ?kept = "take (pyIt s) (PyTypeToGCThing s)"
  let ?e = "PyTypeToGCThing s ! pyIt s"
  let ?rest = "drop (Suc (pyIt s)) (PyTypeToGCThing s)"
  have t: "PyTypeToGCThing s = ?kept @ ?e # ?rest"
    using assms(1) by (simp add: id_take_nth_drop [symmetric])
  have old: "\<forall>rval\<in>set (deleted s). \<forall>e\<in>set (?kept @ ?rest). \<not> lists_handle e rval"
    using assms(2) by (metis Un_iff in_set_dropD in_set_takeD set_append)
  have "sweep_body heap s =
      sweep_body heap \<lparr>pyIt = length ?kept, PyTypeToGCThing = ?kept @ ?e # ?rest, deleted = deleted s\<rparr>"
    using sweep_state_zip [OF assms(1)] by simp
  also have "\<dots> =
     (if host_unreachable heap ?e then
        \<lparr>pyIt = length ?kept, PyTypeToGCThing = ?kept @ ?rest,
         deleted = deleted s @ filter (\<lambda>r. \<forall>e'\<in>set (?kept @ ?rest). \<not> lists_handle e' r) (snd ?e)\<rparr>
      else \<lparr>pyIt = Suc (length ?kept), PyTypeToGCThing = ?kept @ ?e # ?rest, deleted = deleted s\<rparr>)"
    by (rule sweep_body_zip)
  finally have body: "sweep_body heap s =
     (if host_unreachable heap ?e then
        \<lparr>pyIt = length ?kept, PyTypeToGCThing = ?kept @ ?rest,
         deleted = deleted s @ filter (\<lambda>r. \<forall>e'\<in>set (?kept @ ?rest). \<not> lists_handle e' r) (snd ?e)\<rparr>
      else \<lparr>pyIt = Suc (length ?kept), PyTypeToGCThing = ?kept @ ?e # ?rest, deleted = deleted s\<rparr>)" .
  show ?thesis
  proof (cases "host_unreachable heap ?e")
    case True
    then show ?thesis using body old by auto
  next
    case False
    then show ?thesis using body assms(2) t by auto
  qed
qed

lemma sweep_reach_inv:
  "sweep_reach heap t s \<Longrightarrow>
     \<forall>rval\<in>set (deleted s). \<forall>e\<in>set (PyTypeToGCThing s). \<not> lists_handle e rval"
proof (induction rule: sweep_reach.induct)
  case start
  show ?case by (simp add: sweep_begin_def)
next
  case (step s)
  then show ?case by (intro sweep_body_keeps_inv)
qed

lemma sweep_reach_loop:
  "sweep_reach heap t s \<Longrightarrow> sweep_reach heap t (sweep_loop heap s)"
proof (induction heap s rule: sweep_loop.induct)
  case (1 heap s)
  show ?case
  proof (cases "pyIt s < length (PyTypeToGCThing s)")
    case True
    then have "sweep_reach heap t (sweep_body heap s)"
      using "1.prems" by (rule sweep_reach.step [rotated])
    then show ?thesis using "1.IH" True by (subst sweep_loop.simps) simp
  next
    case False
    then show ?thesis using "1.prems" by (subst sweep_loop.simps) simp
  qed
qed

lemma sweep_loop_result:
  "PyTypeToGCThing (sweep_loop heap (sweep_begin t)) = filter (\<lambda>e. \<not> host_unreachable heap e) t"
  "set (deleted (sweep_loop heap (sweep_begin t))) =
     {rval. (\<exists>e\<in>set t. host_unreachable heap e \<and> lists_handle e rval) \<and>
            (\<forall>e\<in>set t. lists_handle e rval \<longrightarrow> host_unreachable heap e)}"
  using sweep_loop_zip [of "[]" heap t "[]", OF _ refl] by (simp_all add: sweep_begin_def)

lemma sweep_body_deletes:
  assumes "pyIt s < length (PyTypeToGCThing s)"
    and "rval \<in> set (drop (length (deleted s)) (deleted (sweep_body heap s)))"
  shows "lists_handle (PyTypeToGCThing s ! pyIt s) rval
    \<and> (\<forall>j<length (PyTypeToGCThing s). j \<noteq> pyIt s \<longrightarrow> \<not> lists_handle (PyTypeToGCThing s ! j) rval)"
proof (cases "host_unreachable heap (PyTypeToGCThing s ! pyIt s)")
  case True
  then have "drop (length (deleted s)) (deleted (sweep_body heap s))
      = filter (\<lambda>rval. \<not> (\<exists>j<length (PyTypeToGCThing s). j \<noteq> pyIt s
                  \<and> lists_handle (PyTypeToGCThing s ! j) rval))
          (snd (PyTypeToGCThing s ! pyIt s))"
    by (simp add: sweep_body_at [OF assms(1)] Let_def)
  then show ?thesis using assms(2) by (auto simp: lists_handle_def)
next
  case False
  then have "drop (length (deleted s)) (deleted (sweep_body heap s)) = []"
    by (simp add: sweep_body_at [OF assms(1)] Let_def)
  then show ?thesis using assms(2) by simp
qed

text \<open>
  Claim C1. In every state of a sweep-hook invocation (between two runs of the loop body,
  the last state included), no handle deleted so far is listed by an entry that is still
  in the table: a handle that several entries list is deleted only when the last of them
  is retired. Within a run of the body, the handles it deletes are handles of the entry it
  retires that no other entry of the table lists. The table and the deleted handles the
  hook returns satisfy the first statement as well.
\<close>

theorem deleted_handle_is_listed_nowhere:
  "(\<forall>s. sweep_reach heap t s \<longrightarrow>
        (\<forall>rval\<in>set (deleted s). \<forall>e\<in>set (PyTypeToGCThing s). \<not> lists_handle e rval))
   \<and> (\<forall>s. sweep_reach heap t s \<and> pyIt s < length (PyTypeToGCThing s) \<longrightarrow>
        (\<forall>rval\<in>set (drop (length (deleted s)) (deleted (sweep_body heap s))).
           lists_handle (PyTypeToGCThing s ! pyIt s) rval
           \<and> (\<forall>j<length (PyTypeToGCThing s).
                 j \<noteq> pyIt s \<longrightarrow> \<not> lists_handle (PyTypeToGCThing s ! j) rval)))
   \<and> sweep_reach heap t (sweep_loop heap (sweep_begin t))
   \<and> (\<forall>rval\<in>set (snd (handleSharedPythonMonkeyMemory heap status t)).
        \<forall>e\<in>set (fst (handleSharedPythonMonkeyMemory heap status t)). \<not> lists_handle e rval)"
proof (intro conjI allI impI)
  fix s assume "sweep_reach heap t s"
  then show "\<forall>rval\<in>set (deleted s). \<forall>e\<in>set (PyTypeToGCThing s). \<not> lists_handle e rval"
    by (rule sweep_reach_inv)
next
  fix s assume "sweep_reach heap t s \<and> pyIt s < length (PyTypeToGCThing s)"
  then have "pyIt s < length (PyTypeToGCThing s)" by simp
  then show "\<forall>rval\<in>set (drop (length (deleted s)) (deleted (sweep_body heap s))).
           lists_handle (PyTypeToGCThing s ! pyIt s) rval
           \<and> (\<forall>j<length (PyTypeToGCThing s).
                 j \<noteq> pyIt s \<longrightarrow> \<not> lists_handle (PyTypeToGCThing s ! j) rval)"
    using sweep_body_deletes [of s _ heap] by blast
next
  show fin: "sweep_reach heap t (sweep_loop heap (sweep_begin t))"
    by (rule sweep_reach_loop) (rule sweep_reach.start)
  show "\<forall>rval\<in>set (snd (handleSharedPythonMonkeyMemory heap status t)).
        \<forall>e\<in>set (fst (handleSharedPythonMonkeyMemory heap status t)). \<not> lists_handle e rval"
    using sweep_reach_inv [OF fin] by (simp add: handleSharedPythonMonkeyMemory_def Let_def)
qed

theorem deleted_handle_is_listed_nowhere_witness:
  "handleSharedPythonMonkeyMemory heap0 JSGC_BEGIN [(1, [10, 11]), (2, [10]), (3, [11, 12])]
     = ([(2, [10])], [11, 12])
   \<and> \<not> lists_handle (2, [10]) 11 \<and> \<not> lists_handle (2, [10]) 12"
  using deleted_handle_is_listed_nowhere
    [of heap0 "[(1, [10, 11]), (2, [10]), (3, [11, 12])]" JSGC_BEGIN]
  by (simp add: handleSharedPythonMonkeyMemory_def sweep_begin_def sweep_loop.simps
      sweep_body_def heap0_def erase_def found_loop.simps lists_handle_def)

text \<open>
  Claim C2. When the collector reports the beginning of a cycle the hook goes through the
  whole table. An entry counts as host-unreachable exactly when its wrapper is finalized
  or its reference count is 1. The body of the loop, at an entry of that kind, deletes
  those of its handles that no other entry of the table lists_handle and erases the entry; at
  any other entry it only moves on. So the table the hook leaves holds the host-reachable
  entries, unchanged and in order, and the handles it deleted are those listed by a
  retired entry and by no entry that stays.
\<close>

theorem sweep_hook_retires_unreachable_entries:
  "fst (handleSharedPythonMonkeyMemory heap JSGC_BEGIN t)
     = filter (\<lambda>e. \<not> (gc_finalized (heap (fst e)) \<or> ob_refcnt (heap (fst e)) = 1)) t
   \<and> set (snd (handleSharedPythonMonkeyMemory heap JSGC_BEGIN t))
     = {rval. (\<exists>e\<in>set t. host_unreachable heap e \<and> lists_handle e rval) \<and>
              (\<forall>e\<in>set t. lists_handle e rval \<longrightarrow> host_unreachable heap e)}
   \<and> (\<forall>s. pyIt s < length (PyTypeToGCThing s) \<longrightarrow>
        sweep_body heap s =
          (let t = PyTypeToGCThing s; it = pyIt s; e = t ! it
           in if gc_finalized (heap (fst e)) \<or> ob_refcnt (heap (fst e)) = 1 then
                \<lparr>pyIt = it, PyTypeToGCThing = erase t it,
                 deleted = deleted s
                   @ filter (\<lambda>rval. \<not> (\<exists>j<length t. j \<noteq> it \<and> lists_handle (t ! j) rval)) (snd e)\<rparr>
              else s\<lparr>pyIt := Suc it\<rparr>))"
proof (intro conjI allI impI)
  show "fst (handleSharedPythonMonkeyMemory heap JSGC_BEGIN t)
     = filter (\<lambda>e. \<not> (gc_finalized (heap (fst e)) \<or> ob_refcnt (heap (fst e)) = 1)) t"
    using sweep_loop_result(1) [of heap t]
    by (simp add: handleSharedPythonMonkeyMemory_def Let_def host_unreachable_def)
  show "set (snd (handleSharedPythonMonkeyMemory heap JSGC_BEGIN t))
     = {rval. (\<exists>e\<in>set t. host_unreachable heap e \<and> lists_handle e rval) \<and>
              (\<forall>e\<in>set t. lists_handle e rval \<longrightarrow> host_unreachable heap e)}"
    using sweep_loop_result(2) [of heap t]
    by (simp add: handleSharedPythonMonkeyMemory_def Let_def)
next
  fix s :: sweep_state
  assume "pyIt s < length (PyTypeToGCThing s)"
  from sweep_body_at [OF this, of heap]
  show "sweep_body heap s =
          (let t = PyTypeToGCThing s; it = pyIt s; e = t ! it
           in if gc_finalized (heap (fst e)) \<or> ob_refcnt (heap (fst e)) = 1 then
                \<lparr>pyIt = it, PyTypeToGCThing = erase t it,
                 deleted = deleted s
                   @ filter (\<lambda>rval. \<not> (\<exists>j<length t. j \<noteq> it \<and> lists_handle (t ! j) rval)) (snd e)\<rparr>
              else s\<lparr>pyIt := Suc it\<rparr>)"
    by (simp add: host_unreachable_def Let_def)
qed

theorem sweep_hook_retires_unreachable_entries_witness:
  "fst (handleSharedPythonMonkeyMemory heap0 JSGC_BEGIN [(1, [10, 11]), (2, [10]), (3, [11, 12])])
     = [(2, [10])]
   \<and> set (snd (handleSharedPythonMonkeyMemory heap0 JSGC_BEGIN
         [(1, [10, 11]), (2, [10]), (3, [11, 12])])) = {11, 12}
   \<and> sweep_body heap0 \<lparr>pyIt = 1, PyTypeToGCThing = [(2, [10]), (3, [11, 12])], deleted = []\<rparr>
     = \<lparr>pyIt = 1, PyTypeToGCThing = [(2, [10])], deleted = [11, 12]\<rparr>
   \<and> sweep_body heap0 \<lparr>pyIt = 0, PyTypeToGCThing = [(2, [10]), (3, [11, 12])], deleted = []\<rparr>
     = \<lparr>pyIt = 1, PyTypeToGCThing = [(2, [10]), (3, [11, 12])], deleted = []\<rparr>"
proof -
  let ?t = "[(1, [10, 11]), (2, [10]), (3, [11, 12])] :: PyToGC_table"
  note main = sweep_hook_retires_unreachable_entries [of heap0 ?t]
  have 1: "fst (handleSharedPythonMonkeyMemory heap0 JSGC_BEGIN ?t) = [(2, [10])]"
    using main by (simp add: heap0_def)
  have "set (snd (handleSharedPythonMonkeyMemory heap0 JSGC_BEGIN ?t))
      = {rval. (\<exists>e\<in>set ?t. host_unreachable heap0 e \<and> lists_handle e rval) \<and>
               (\<forall>e\<in>set ?t. lists_handle e rval \<longrightarrow> host_unreachable heap0 e)}"
    using main by blast
  also have "\<dots> = {11, 12}"
    by (auto simp: host_unreachable_def heap0_def lists_handle_def)
  finally have 2: "set (snd (handleSharedPythonMonkeyMemory heap0 JSGC_BEGIN ?t)) = {11, 12}" .
  have 3: "sweep_body heap0 \<lparr>pyIt = 1, PyTypeToGCThing = [(2, [10]), (3, [11, 12])], deleted = []\<rparr>
     = \<lparr>pyIt = 1, PyTypeToGCThing = [(2, [10])], deleted = [11, 12]\<rparr>"
    using main [THEN conjunct2, THEN conjunct2, THEN spec,
        of "\<lparr>pyIt = 1, PyTypeToGCThing = [(2, [10]), (3, [11, 12])], deleted = []\<rparr>"]
    by (simp add: heap0_def erase_def lists_handle_def Ex_less_Suc)
  have 4: "sweep_body heap0 \<lparr>pyIt = 0, PyTypeToGCThing = [(2, [10]), (3, [11, 12])], deleted = []\<rparr>
     = \<lparr>pyIt = 1, PyTypeToGCThing = [(2, [10]), (3, [11, 12])], deleted = []\<rparr>"
    using main [THEN conjunct2, THEN conjunct2, THEN spec,
        of "\<lparr>pyIt = 0, PyTypeToGCThing = [(2, [10]), (3, [11, 12])], deleted = []\<rparr>"]
    by (simp add: heap0_def)
  show ?thesis using 1 2 3 4 by blast
qed


section \<open>Properties of the proxy handler\<close>

lemma c_str_no_NUL: "CHR 0x00 \<notin> set s \<Longrightarrow> c_str s = s"
  unfolding c_str_def by (induction s) auto

lemma decode_ascii:
  "\<forall>c\<in>set s. (of_char c :: nat) < 0x80 \<Longrightarrow> PyUnicode_DecodeUTF8_replace s = s"
proof (induction s)
  case Nil
  show ?case by (simp add: PyUnicode_DecodeUTF8_replace.simps)
next
  case (Cons c s)
  then have "utf8_decode c s = ([c], 0)" by (simp add: utf8_decode_def)
  then show ?case using Cons by (simp add: PyUnicode_DecodeUTF8_replace.simps)
qed

lemma decode_e_acute:
  "PyUnicode_DecodeUTF8_replace (concat (replicate n [CHR 0xC3, CHR 0xA9]) @ s)
     = concat (replicate n [CHR 0xC3, CHR 0xA9]) @ PyUnicode_DecodeUTF8_replace s"
proof (induction n)
  case 0
  show ?case by simp
next
  case (Suc n)
  have "utf8_decode (CHR 0xC3) (CHR 0xA9 # cs) = ([CHR 0xC3, CHR 0xA9], 1)" for cs
    by (simp add: utf8_decode_def IS_CONTINUATION_BYTE_def)
  then show ?case using Suc by (simp add: PyUnicode_DecodeUTF8_replace.simps)
qed

lemma decode_cut_e_acute:
  "PyUnicode_DecodeUTF8_replace [CHR 0xC3] = replacement_character"
  by (simp add: PyUnicode_DecodeUTF8_replace.simps utf8_decode_def)

lemma set_handler_eq:
  "set_handler (proxy, py) jsid v receiver =
     ((True, JSMSG_READ_ONLY),
      (proxy, py\<lparr>PyErr_Occurred := Some (PyExc_TypeError,
          [CHR 0x27]
            @ PyUnicode_DecodeUTF8_replace (take 100 (c_str (tp_name (PyObjectSlot proxy))))
            @ [CHR 0x27] @ '' object has only read-only attributes'')\<rparr>))"
  by (simp add: set_handler_def PyErr_SetString_def fmt_s100_def)

lemma sublist_read_only:
  "sublist ''read-only attributes'' (xs @ [CHR 0x27] @ '' object has only read-only attributes'')"
proof -
  have "xs @ [CHR 0x27] @ '' object has only read-only attributes''
     = (xs @ [CHR 0x27] @ '' object has only '') @ ''read-only attributes'' @ []"
    by simp
  then show ?thesis by (metis sublist_appendI)
qed

lemma sublist_quoted: "sublist xs ([q] @ xs @ ys)"
  by (rule sublist_appendI)

lemma long_name_cut:
  "PyUnicode_DecodeUTF8_replace (take 100 (c_str (replicate 100 CHR ''T'' @ ''z'')))
     = replicate 100 CHR ''T''"
proof -
  have "c_str (replicate 100 CHR ''T'' @ ''z'') = replicate 100 CHR ''T'' @ ''z''"
    by (rule c_str_no_NUL) simp
  then have "take 100 (c_str (replicate 100 CHR ''T'' @ ''z'')) = replicate 100 CHR ''T''"
    by simp
  then show ?thesis by (simp add: decode_ascii)
qed

lemma accented_name_cut:
  "PyUnicode_DecodeUTF8_replace
     (take 100 (c_str (''a'' @ concat (replicate 50 [CHR 0xC3, CHR 0xA9]))))
     = ''a'' @ concat (replicate 49 [CHR 0xC3, CHR 0xA9]) @ replacement_character"
proof -
  let ?e = "[CHR 0xC3, CHR 0xA9]"
  have len: "length (concat (replicate n ?e)) = 2 * n" for n by (induction n) simp_all
  have "replicate (Suc 49) ?e = replicate 49 ?e @ [?e]"
    by (simp only: replicate_Suc replicate_append_same)
  moreover have "(50::nat) = Suc 49" by simp
  ultimately have "replicate 50 ?e = replicate 49 ?e @ [?e]" by (simp only:)
  then have split: "concat (replicate 50 ?e) = concat (replicate 49 ?e) @ ?e"
    by (simp only: concat_append concat.simps append_Nil2)
  have "CHR 0x00 \<notin> set (''a'' @ concat (replicate 50 ?e))" by auto
  then have "c_str (''a'' @ concat (replicate 50 ?e)) = ''a'' @ concat (replicate 50 ?e)"
    by (rule c_str_no_NUL)
  then have "take 100 (c_str (''a'' @ concat (replicate 50 ?e)))
      = ''a'' @ concat (replicate 49 ?e) @ [CHR 0xC3]"
    by (simp add: split len)
  moreover have "PyUnicode_DecodeUTF8_replace (CHR ''a'' # cs)
      = CHR ''a'' # PyUnicode_DecodeUTF8_replace cs" for cs
    by (simp add: PyUnicode_DecodeUTF8_replace.simps utf8_decode_def)
  ultimately show ?thesis
    using decode_e_acute [of 49 "[CHR 0xC3]"]
    by (simp add: decode_cut_e_acute)
qed

text \<open>
  Claim C3, as it stands, fails for a wrapped object whose type has a name that is longer
  than 100 bytes: of 100 letters T and a letter z the message holds the 100 letters T
  only, so it does not contain the name.
\<close>

theorem set_names_type_counterexample:
  "\<not> read_only_error_naming (tp_name (PyObjectSlot long_named_proxy))
      (snd (snd (set_handler (long_named_proxy, py0) (IdInt 0) (Int32Value 7) UndefinedValue)))"
proof
  assume "read_only_error_naming (tp_name (PyObjectSlot long_named_proxy))
      (snd (snd (set_handler (long_named_proxy, py0) (IdInt 0) (Int32Value 7) UndefinedValue)))"
  then have "sublist (replicate 100 CHR ''T'' @ ''z'')
      ([CHR 0x27] @ replicate 100 CHR ''T'' @ [CHR 0x27] @ '' object has only read-only attributes'')"
    using long_name_cut
    by (simp add: set_handler_eq read_only_error_naming_def long_named_proxy_def py0_def)
  then have "set (replicate 100 CHR ''T'' @ ''z'')
      \<subseteq> set ([CHR 0x27] @ replicate 100 CHR ''T'' @ [CHR 0x27] @ '' object has only read-only attributes'')"
    by (rule set_mono_sublist)
  then show False by simp
qed

text \<open>
  Claim C3, amended. Whatever the key, the value and the receiver, a write through the
  proxy fails with the read-only code, leaves the proxy (so every byte of its buffer) and
  the standard output as they were, and sets a \<^verbatim>\<open>TypeError\<close> whose message is, in
  quotes, the first 100 bytes of the name of the wrapped object's type, decoded with
  replacement, followed by \<^verbatim>\<open> object has only read-only attributes\<close>. A name that is
  well-formed UTF-8 (decoding replaces nothing in it) of at most 100 bytes is in the message
  whole.
\<close>

theorem set_fails_read_only:
  "fst (set_handler (proxy, py) jsid v receiver) = (True, JSMSG_READ_ONLY)
   \<and> fst (snd (set_handler (proxy, py) jsid v receiver)) = proxy
   \<and> contents (OtherSlot (fst (snd (set_handler (proxy, py) jsid v receiver))))
       = contents (OtherSlot proxy)
   \<and> stdout (snd (snd (set_handler (proxy, py) jsid v receiver))) = stdout py
   \<and> PyErr_Occurred (snd (snd (set_handler (proxy, py) jsid v receiver)))
       = Some (PyExc_TypeError,
           [CHR 0x27]
             @ PyUnicode_DecodeUTF8_replace (take 100 (c_str (tp_name (PyObjectSlot proxy))))
             @ [CHR 0x27] @ '' object has only read-only attributes'')
   \<and> (length (c_str (tp_name (PyObjectSlot proxy))) \<le> 100
        \<and> PyUnicode_DecodeUTF8_replace (c_str (tp_name (PyObjectSlot proxy)))
            = c_str (tp_name (PyObjectSlot proxy))
      \<longrightarrow> read_only_error_naming (c_str (tp_name (PyObjectSlot proxy)))
            (snd (snd (set_handler (proxy, py) jsid v receiver))))"
  using sublist_read_only [of "CHR 0x27 # c_str (tp_name (PyObjectSlot proxy))"]
    sublist_quoted [of "c_str (tp_name (PyObjectSlot proxy))" "CHR 0x27"]
  by (simp add: set_handler_eq read_only_error_naming_def)

theorem set_fails_read_only_witness:
  "set_handler (proxy0, py0) (IdInt 0) (Int32Value 7) UndefinedValue
     = ((True, JSMSG_READ_ONLY),
        (proxy0, \<lparr>PyErr_Occurred =
            Some (PyExc_TypeError, [CHR 0x27] @ ''bytes'' @ [CHR 0x27] @ '' object has only read-only attributes''),
          stdout = []\<rparr>))
   \<and> contents (OtherSlot proxy0) = [10, 20, 30]
   \<and> read_only_error_naming ''bytes''
        (snd (snd (set_handler (proxy0, py0) (IdInt 0) (Int32Value 7) UndefinedValue)))
   \<and> PyErr_Occurred
        (snd (snd (set_handler (accented_proxy, py0) (IdInt 0) (Int32Value 7) UndefinedValue)))
       = Some (PyExc_TypeError,
           [CHR 0x27] @ ''a'' @ concat (replicate 49 [CHR 0xC3, CHR 0xA9])
             @ [CHR 0xEF, CHR 0xBF, CHR 0xBD]
             @ [CHR 0x27] @ '' object has only read-only attributes'')"
proof -
  have name: "c_str ''bytes'' = ''bytes''" by (simp add: c_str_def)
  have dec: "PyUnicode_DecodeUTF8_replace ''bytes'' = ''bytes''"
    by (rule decode_ascii) simp
  have 1: "set_handler (proxy0, py0) (IdInt 0) (Int32Value 7) UndefinedValue
     = ((True, JSMSG_READ_ONLY),
        (proxy0, \<lparr>PyErr_Occurred =
            Some (PyExc_TypeError, [CHR 0x27] @ ''bytes'' @ [CHR 0x27] @ '' object has only read-only attributes''),
          stdout = []\<rparr>))"
    by (simp add: set_handler_eq proxy0_def py0_def name dec)
  have 2: "read_only_error_naming ''bytes''
        (snd (snd (set_handler (proxy0, py0) (IdInt 0) (Int32Value 7) UndefinedValue)))"
    using set_fails_read_only [of proxy0 py0 "IdInt 0" "Int32Value 7" UndefinedValue]
    by (simp add: proxy0_def name dec)
  have 3: "PyErr_Occurred
        (snd (snd (set_handler (accented_proxy, py0) (IdInt 0) (Int32Value 7) UndefinedValue)))
       = Some (PyExc_TypeError,
           [CHR 0x27] @ ''a'' @ concat (replicate 49 [CHR 0xC3, CHR 0xA9])
             @ [CHR 0xEF, CHR 0xBF, CHR 0xBD]
             @ [CHR 0x27] @ '' object has only read-only attributes'')"
    using set_fails_read_only [of accented_proxy py0 "IdInt 0" "Int32Value 7" UndefinedValue]
      accented_name_cut
    by (simp add: accented_proxy_def replacement_character_def)
  show ?thesis using 1 2 3 by (simp add: proxy0_def buffer0_def)
qed

lemma find_method_array_methods:
  "find_method array_methods s =
     (if s = ''toString'' then Some \<lparr>name = ''toString'', call = fn_array_toString, nargs = 0\<rparr>
      else if s = ''valueOf'' then Some \<lparr>name = ''valueOf'', call = fn_array_valueOf, nargs = 0\<rparr>
      else if s = ''entries'' then Some \<lparr>name = ''entries'', call = fn_array_entries, nargs = 0\<rparr>
      else if s = ''keys'' then Some \<lparr>name = ''keys'', call = fn_array_keys, nargs = 0\<rparr>
      else if s = ''values'' then Some \<lparr>name = ''values'', call = fn_array_values, nargs = 0\<rparr>
      else None)"
  by (simp add: array_methods_def)

lemma gopd_symbol:
  "getOwnPropertyDescriptor cx proxy (IdSymbol code) =
     (if code = sym_iterator then new_function_descriptor cx fn_array_values
      else (Returned True None, cx))"
  by (simp add: getOwnPropertyDescriptor_def method_part_def property_part_def symbol_part_def)

lemma gopd_int:
  "getOwnPropertyDescriptor cx proxy (IdInt i) =
     (if i < length (contents (OtherSlot proxy)) then
        (Returned True (Some (Data (Int32Value (ucast (contents (OtherSlot proxy) ! i))) [])), cx)
      else (Undefined (OutOfBoundsRead (int i)), cx))"
  by (simp add: getOwnPropertyDescriptor_def method_part_def property_part_def symbol_part_def
      item_part_def read_byte_def)

lemma gopd_string:
  "getOwnPropertyDescriptor cx proxy (IdString s) =
     (case method_part cx proxy (IdString s) of
        Some r \<Rightarrow> r
      | None \<Rightarrow>
          (case property_part cx proxy (IdString s) of
             Some r \<Rightarrow> r
           | None \<Rightarrow> (GetAttr_fallback (PyObjectSlot proxy) (IdString s), cx)))"
  by (simp add: getOwnPropertyDescriptor_def symbol_part_def item_part_def
      split: option.splits)

lemma method_names:
  "method_part cx proxy (IdString s) \<noteq> None
     \<longleftrightarrow> s \<in> {''toString'', ''valueOf'', ''entries'', ''keys'', ''values''}"
  by (simp add: method_part_def find_method_array_methods)

lemma property_names:
  "property_part cx proxy (IdString s) \<noteq> None
     \<longleftrightarrow> s \<in> {''length'', ''byteLength'', ''buffer'', ''BYTES_PER_ELEMENT'',
                ''byteOffset'', ''constructor''}"
  by (simp add: property_part_def Let_def split: JSValue.splits)



lemma gopd_string_precedence:
  "getOwnPropertyDescriptor cx proxy (IdString s) = resolution_by_precedence cx proxy (IdString s)"
proof -
  let ?M = "{''toString'', ''valueOf'', ''entries'', ''keys'', ''values''}"
  let ?P = "{''length'', ''byteLength'', ''buffer'', ''BYTES_PER_ELEMENT'', ''byteOffset'',
             ''constructor''}"
  have inj: "IdString s \<in> IdString ` A \<longleftrightarrow> s \<in> A" for A by auto
  have m: "method_part cx proxy (IdString s) \<noteq> None \<longleftrightarrow> s \<in> ?M" by (rule method_names)
  have p: "property_part cx proxy (IdString s) \<noteq> None \<longleftrightarrow> s \<in> ?P" by (rule property_names)
  have rhs: "resolution_by_precedence cx proxy (IdString s) =
     (if s \<in> ?M then
        (case method_part cx proxy (IdString s) of Some r \<Rightarrow> r
         | None \<Rightarrow> (GetAttr_fallback (PyObjectSlot proxy) (IdString s), cx))
      else if s \<in> ?P then
        (case property_part cx proxy (IdString s) of Some r \<Rightarrow> r
         | None \<Rightarrow> (GetAttr_fallback (PyObjectSlot proxy) (IdString s), cx))
      else (GetAttr_fallback (PyObjectSlot proxy) (IdString s), cx))"
    unfolding resolution_by_precedence_def inj
    by (simp only: JSId.distinct idToIndex.simps if_False option.case)
  show ?thesis
  proof (cases "method_part cx proxy (IdString s)")
    case (Some r)
    then have "method_part cx proxy (IdString s) \<noteq> None" by simp
    then have "s \<in> ?M" by (simp only: m)
    then show ?thesis unfolding gopd_string rhs using Some by (simp only: if_True option.case)
  next
    case None
    then have nm: "s \<notin> ?M" by (simp only: m [symmetric] not_not)
    show ?thesis
    proof (cases "property_part cx proxy (IdString s)")
      case (Some r)
      then have "property_part cx proxy (IdString s) \<noteq> None" by simp
      then have "s \<in> ?P" by (simp only: p)
      then show ?thesis unfolding gopd_string rhs using Some None nm
        by (simp only: if_True if_False option.case)
    next
      case pn: None
      then have "s \<notin> ?P" by (simp only: p [symmetric] not_not)
      then show ?thesis unfolding gopd_string rhs using pn None nm
        by (simp only: if_False option.case)
    qed
  qed
qed


lemma not_string_key: "IdSymbol code \<notin> IdString ` A" "IdInt i \<notin> IdString ` A"
  by auto

lemma new_function_descriptor_fresh:
  "\<not> out_of_memory cx \<Longrightarrow>
   new_function_descriptor cx native =
     (Returned True
        (Some (Data (ObjectValue (FunctionObject (length (function_objects cx)))) [Enumerable])),
      cx\<lparr>function_objects := function_objects cx @ [native]\<rparr>)"
  by (simp add: new_function_descriptor_def JS_NewFunction_def)

lemma gopd_other_precedence:
  "getOwnPropertyDescriptor cx proxy (IdSymbol sym_iterator)
     = resolution_by_precedence cx proxy (IdSymbol sym_iterator)"
  "i < GetArrayBufferByteLength (OtherSlot proxy) \<Longrightarrow>
   getOwnPropertyDescriptor cx proxy (IdInt i) = resolution_by_precedence cx proxy (IdInt i)"
  unfolding resolution_by_precedence_def gopd_symbol gopd_int
  by (simp_all only: not_string_key if_False if_True refl idToIndex.simps option.case
      JSId.distinct GetArrayBufferByteLength_def)

text \<open>
  Claim C5, as it stands, fails for every symbol other than the iteration symbol: the
  handler returns with no descriptor, and the attribute lookup on the wrapped object, the
  last step of the precedence, is not reached.
\<close>

theorem symbol_key_counterexample:
  "getOwnPropertyDescriptor cx0 proxy0 (IdSymbol sym_toStringTag) = (Returned True None, cx0)
   \<and> resolution_by_precedence cx0 proxy0 (IdSymbol sym_toStringTag)
       = (GetAttr_fallback (PyObjectSlot proxy0) (IdSymbol sym_toStringTag), cx0)
   \<and> getOwnPropertyDescriptor cx0 proxy0 (IdSymbol sym_toStringTag)
       \<noteq> resolution_by_precedence cx0 proxy0 (IdSymbol sym_toStringTag)"
proof -
  have code: "getOwnPropertyDescriptor cx0 proxy0 (IdSymbol sym_toStringTag)
      = (Returned True None, cx0)"
    unfolding gopd_symbol by (simp only: SymbolCode.distinct if_False)
  have spec: "resolution_by_precedence cx0 proxy0 (IdSymbol sym_toStringTag)
       = (GetAttr_fallback (PyObjectSlot proxy0) (IdSymbol sym_toStringTag), cx0)"
    unfolding resolution_by_precedence_def
    by (simp only: not_string_key if_False idToIndex.simps option.case JSId.inject
        SymbolCode.distinct simp_thms)
  show ?thesis unfolding code spec by simp
qed


text \<open>
  Claim C5, amended. For every key that is a string, the iteration symbol or an index
  within the buffer, the handler resolves the key in the order of the specification: a
  named method, a synthetic property, the iteration symbol, the indexed byte, and last
  the attribute lookup on the wrapped object. A key that is any other symbol resolves to
  no property, with no attribute lookup. A method name and the iteration symbol give a
  function object that is new at each access (its number is the count of the function
  objects made before), and the function of the iteration symbol is
  \<^verbatim>\<open>array_values\<close>, which makes an iterator of the values. (Nothing is said here of
  an index beyond the buffer.)
\<close>

theorem property_resolution_precedence:
  "((\<forall>code. jsid = IdSymbol code \<longrightarrow> code = sym_iterator)
      \<and> (\<forall>i. jsid = IdInt i \<longrightarrow> i < GetArrayBufferByteLength (OtherSlot proxy))
     \<longrightarrow> getOwnPropertyDescriptor cx proxy jsid = resolution_by_precedence cx proxy jsid)
   \<and> (code \<noteq> sym_iterator
     \<longrightarrow> getOwnPropertyDescriptor cx proxy (IdSymbol code) = (Returned True None, cx))
   \<and> (find_method array_methods s = Some m
     \<longrightarrow> getOwnPropertyDescriptor cx proxy (IdString s) = new_function_descriptor cx (call m))
   \<and> getOwnPropertyDescriptor cx proxy (IdSymbol sym_iterator)
       = new_function_descriptor cx fn_array_values
   \<and> (\<not> out_of_memory cx
     \<longrightarrow> new_function_descriptor cx native =
          (Returned True
             (Some (Data (ObjectValue (FunctionObject (length (function_objects cx))))
                [Enumerable])),
           cx\<lparr>function_objects := function_objects cx @ [native]\<rparr>)
        \<and> array_values cx proxy =
          (Some \<lparr>BytesIteratorSlotIteratedObject = OtherSlot proxy,
                 BytesIteratorSlotNextIndex = 0,
                 BytesIteratorSlotItemKind = ITEM_KIND_VALUE\<rparr>,
           cx\<lparr>BytesIterator_defined := True\<rparr>))"
proof (intro conjI impI)
  assume a: "(\<forall>code. jsid = IdSymbol code \<longrightarrow> code = sym_iterator)
      \<and> (\<forall>i. jsid = IdInt i \<longrightarrow> i < GetArrayBufferByteLength (OtherSlot proxy))"
  show "getOwnPropertyDescriptor cx proxy jsid = resolution_by_precedence cx proxy jsid"
  proof (cases jsid)
    case (IdString s')
    then show ?thesis by (simp only: gopd_string_precedence)
  next
    case (IdSymbol code')
    then have "code' = sym_iterator" using a by simp
    then show ?thesis using IdSymbol by (simp only: gopd_other_precedence(1))
  next
    case (IdInt i)
    then have "i < GetArrayBufferByteLength (OtherSlot proxy)" using a by simp
    then show ?thesis using IdInt by (simp only: gopd_other_precedence(2))
  qed
next
  assume "code \<noteq> sym_iterator"
  then show "getOwnPropertyDescriptor cx proxy (IdSymbol code) = (Returned True None, cx)"
    by (simp only: gopd_symbol if_False)
next
  assume "find_method array_methods s = Some m"
  then show "getOwnPropertyDescriptor cx proxy (IdString s) = new_function_descriptor cx (call m)"
    by (simp only: gopd_string method_part_def JSId.case option.case)
next
  show "getOwnPropertyDescriptor cx proxy (IdSymbol sym_iterator)
       = new_function_descriptor cx fn_array_values"
    by (simp only: gopd_symbol refl if_True)
next
  assume "\<not> out_of_memory cx"
  then show "new_function_descriptor cx native =
          (Returned True
             (Some (Data (ObjectValue (FunctionObject (length (function_objects cx))))
                [Enumerable])),
           cx\<lparr>function_objects := function_objects cx @ [native]\<rparr>)"
    by (rule new_function_descriptor_fresh)
next
  assume "\<not> out_of_memory cx"
  then show "array_values cx proxy =
          (Some \<lparr>BytesIteratorSlotIteratedObject = OtherSlot proxy,
                 BytesIteratorSlotNextIndex = 0,
                 BytesIteratorSlotItemKind = ITEM_KIND_VALUE\<rparr>,
           cx\<lparr>BytesIterator_defined := True\<rparr>)"
    by (simp add: array_values_def array_iterator_func_def)
qed


theorem property_resolution_precedence_witness:
  "getOwnPropertyDescriptor cx0 proxy0 (IdString ''keys'')
     = (Returned True (Some (Data (ObjectValue (FunctionObject 0)) [Enumerable])),
        cx0\<lparr>function_objects := [fn_array_keys]\<rparr>)
   \<and> getOwnPropertyDescriptor (cx0\<lparr>function_objects := [fn_array_keys]\<rparr>) proxy0 (IdString ''keys'')
     = (Returned True (Some (Data (ObjectValue (FunctionObject 1)) [Enumerable])),
        cx0\<lparr>function_objects := [fn_array_keys, fn_array_keys]\<rparr>)
   \<and> getOwnPropertyDescriptor cx0 proxy0 (IdSymbol sym_iterator)
     = (Returned True (Some (Data (ObjectValue (FunctionObject 0)) [Enumerable])),
        cx0\<lparr>function_objects := [fn_array_values]\<rparr>)
   \<and> getOwnPropertyDescriptor cx0 proxy0 (IdSymbol sym_toStringTag) = (Returned True None, cx0)
   \<and> getOwnPropertyDescriptor cx0 proxy0 (IdInt 1)
     = (Returned True (Some (Data (Int32Value 20) [])), cx0)
   \<and> getOwnPropertyDescriptor cx0 proxy0 (IdString ''hex'')
     = (GetAttr_fallback \<lparr>tp_name = ''bytes''\<rparr> (IdString ''hex''), cx0)"
proof -
  let ?keys = "\<lparr>name = ''keys'', call = fn_array_keys, nargs = 0\<rparr>"
  have oom: "\<not> out_of_memory cx0" "\<not> out_of_memory (cx0\<lparr>function_objects := [fn_array_keys]\<rparr>)"
    by (simp_all add: cx0_def)
  have fm: "find_method array_methods ''keys'' = Some ?keys"
    by (simp add: find_method_array_methods)
  have 1: "getOwnPropertyDescriptor cx0 proxy0 (IdString ''keys'')
     = (Returned True (Some (Data (ObjectValue (FunctionObject 0)) [Enumerable])),
        cx0\<lparr>function_objects := [fn_array_keys]\<rparr>)"
    using property_resolution_precedence
      [where cx = cx0 and proxy = proxy0 and s = "''keys''" and m = ?keys
         and native = fn_array_keys] fm oom(1)
    by (simp add: cx0_def)
  have 2: "getOwnPropertyDescriptor (cx0\<lparr>function_objects := [fn_array_keys]\<rparr>) proxy0
        (IdString ''keys'')
     = (Returned True (Some (Data (ObjectValue (FunctionObject 1)) [Enumerable])),
        cx0\<lparr>function_objects := [fn_array_keys, fn_array_keys]\<rparr>)"
    using property_resolution_precedence
      [where cx = "cx0\<lparr>function_objects := [fn_array_keys]\<rparr>" and proxy = proxy0
         and s = "''keys''" and m = ?keys and native = fn_array_keys] fm oom(2)
    by (simp add: cx0_def)
  have 3: "getOwnPropertyDescriptor cx0 proxy0 (IdSymbol sym_iterator)
     = (Returned True (Some (Data (ObjectValue (FunctionObject 0)) [Enumerable])),
        cx0\<lparr>function_objects := [fn_array_values]\<rparr>)"
    using property_resolution_precedence
      [where cx = cx0 and proxy = proxy0 and native = fn_array_values] oom(1)
    by (simp add: cx0_def)
  have 4: "getOwnPropertyDescriptor cx0 proxy0 (IdSymbol sym_toStringTag) = (Returned True None, cx0)"
    using property_resolution_precedence
      [where cx = cx0 and proxy = proxy0 and code = sym_toStringTag]
    by simp
  have 5: "getOwnPropertyDescriptor cx0 proxy0 (IdInt 1)
     = (Returned True (Some (Data (Int32Value 20) [])), cx0)"
    using property_resolution_precedence
      [where cx = cx0 and proxy = proxy0 and jsid = "IdInt 1"]
    by (simp add: resolution_by_precedence_def not_string_key GetArrayBufferByteLength_def
        proxy0_def buffer0_def)
  have 6: "getOwnPropertyDescriptor cx0 proxy0 (IdString ''hex'')
     = (GetAttr_fallback \<lparr>tp_name = ''bytes''\<rparr> (IdString ''hex''), cx0)"
    using property_resolution_precedence
      [where cx = cx0 and proxy = proxy0 and jsid = "IdString ''hex''"]
    by (simp add: resolution_by_precedence_def proxy0_def)
  show ?thesis using 1 2 3 4 5 6 by (intro conjI)
qed

text \<open>
  Claim C6. A key that is an index is answered by the byte at that position when the
  index is within the buffer. For an index at or beyond the length the handler does not
  go on to the attribute lookup: it reads \<^verbatim>\<open>data[index]\<close> outside the buffer. Over
  the bytes 10, 20, 30 the index 1 reads 20, and the index 5 is read beyond the end.
\<close>

theorem index_beyond_buffer_is_read:
  "getOwnPropertyDescriptor cx proxy (IdInt i) =
     (if i < GetArrayBufferByteLength (OtherSlot proxy) then
        (Returned True (Some (Data (Int32Value (ucast (contents (OtherSlot proxy) ! i))) [])), cx)
      else (Undefined (OutOfBoundsRead (int i)), cx))
   \<and> getOwnPropertyDescriptor cx0 proxy0 (IdInt 1)
       = (Returned True (Some (Data (Int32Value 20) [])), cx0)
   \<and> getOwnPropertyDescriptor cx0 proxy0 (IdInt 5) = (Undefined (OutOfBoundsRead 5), cx0)
   \<and> getOwnPropertyDescriptor cx0 proxy0 (IdInt 5)
       \<noteq> (GetAttr_fallback (PyObjectSlot proxy0) (IdInt 5), cx0)"
  by (simp add: gopd_int GetArrayBufferByteLength_def proxy0_def buffer0_def)

lemma comma_joined_Cons:
  "comma_joined (b # bs) = to_string (unat b) @ concat (map (\<lambda>x. '','' @ to_string (unat x)) bs)"
  by (induction bs arbitrary: b) simp_all

lemma valueOf_loop_eq:
  "valueOf_loop data i acc =
     acc @ (if i = 0 then comma_joined data
            else concat (map (\<lambda>x. '','' @ to_string (unat x)) (drop i data)))"
proof (induction data i acc rule: valueOf_loop.induct)
  case (1 data i acc)
  show ?case
  proof (cases "i < length data")
    case False
    then show ?thesis by (subst valueOf_loop.simps) (cases data; simp)
  next
    case True
    let ?acc = "(if i > 0 then acc @ '','' else acc) @ to_string (unat (data ! i))"
    have "valueOf_loop data i acc = valueOf_loop data (Suc i) ?acc"
      using True by (subst valueOf_loop.simps) simp
    also have "\<dots> = ?acc @ concat (map (\<lambda>x. '','' @ to_string (unat x)) (drop (Suc i) data))"
      using "1.IH" [OF True] by simp
    also have "\<dots> = acc @ (if i = 0 then comma_joined data
            else concat (map (\<lambda>x. '','' @ to_string (unat x)) (drop i data)))"
    proof (cases "i = 0")
      case True
      then obtain b bs where "data = b # bs" using \<open>i < length data\<close> by (cases data) auto
      then show ?thesis using True by (simp add: comma_joined_Cons)
    next
      case False
      have "drop i data = data ! i # drop (Suc i) data"
        using \<open>i < length data\<close> by (simp add: Cons_nth_drop_Suc)
      then show ?thesis using False by simp
    qed
    finally show ?thesis .
  qed
qed

lemma array_valueOf_eq:
  "array_valueOf cx proxy = (True, Some (StringValue (comma_joined (contents (OtherSlot proxy)))))"
  by (simp add: array_valueOf_def valueOf_loop_eq)

lemma to_string_examples:
  "to_string 10 = ''10''" "to_string 20 = ''20''" "to_string 30 = ''30''" "to_string 255 = ''255''"
  by (simp_all add: to_string.simps digit_def)

lemma comma_joined_example: "comma_joined [10, 20, 30] = ''10,20,30''"
  by (simp add: to_string_examples)

lemma gopd_properties:
  "getOwnPropertyDescriptor cx proxy (IdString ''length'')
     = (Returned True
          (Some (Data (Int32Value (of_nat (GetArrayBufferByteLength (OtherSlot proxy)))) [])), cx)"
  "getOwnPropertyDescriptor cx proxy (IdString ''byteLength'')
     = (Returned True
          (Some (Data (Int32Value (of_nat (GetArrayBufferByteLength (OtherSlot proxy)))) [])), cx)"
  "getOwnPropertyDescriptor cx proxy (IdString ''BYTES_PER_ELEMENT'')
     = (Returned True (Some (Data (Int32Value 1) [])), cx)"
  "getOwnPropertyDescriptor cx proxy (IdString ''byteOffset'')
     = (Returned True (Some (Data (Int32Value 0) [])), cx)"
  "getOwnPropertyDescriptor cx proxy (IdString ''buffer'')
     = (Returned True
          (Some (Data (ObjectValue (ArrayBufferObject (address (OtherSlot proxy)))) [])), cx)"
  by (simp_all add: gopd_string method_part_def find_method_array_methods property_part_def)

lemma gopd_constructor:
  "\<not> out_of_memory cx \<Longrightarrow> Uint8Array_prototype_constructor cx = ObjectValue ctor \<Longrightarrow>
   getOwnPropertyDescriptor cx proxy (IdString ''constructor'')
     = (Returned True (Some (Data (ObjectValue ctor) [Enumerable])), cx)"
  by (simp add: gopd_string method_part_def find_method_array_methods property_part_def)

lemma sint_length:
  "n < 2 ^ 31 \<Longrightarrow> sint (of_nat n :: int32_t) = int n"
  by (simp add: signed_of_nat signed_take_bit_int_eq_self)

lemma huge_length: "GetArrayBufferByteLength (OtherSlot huge_proxy) = 2147483648"
  by (simp add: GetArrayBufferByteLength_def huge_proxy_def huge_buffer_def)


text \<open>
  Claim C7, as it stands, fails for a buffer of \<open>2 ^ 31\<close> bytes or more: the length is
  converted to a 32-bit integer, and over \<open>2 ^ 31\<close> bytes \<^verbatim>\<open>length\<close> reads
  \<open>- 2 ^ 31\<close>.
\<close>

theorem length_of_huge_buffer_counterexample:
  "getOwnPropertyDescriptor cx0 huge_proxy (IdString ''length'')
     = (Returned True (Some (Data (Int32Value (- 2147483648)) [])), cx0)
   \<and> sint (- 2147483648 :: int32_t) = - 2147483648
   \<and> GetArrayBufferByteLength (OtherSlot huge_proxy) = 2147483648"
  by (simp add: gopd_properties huge_length)

text \<open>
  Claim C7, amended. For every proxy over a byte sequence of length \<open>L\<close>: \<^verbatim>\<open>length\<close>
  and \<^verbatim>\<open>byteLength\<close> both read the 32-bit integer of \<open>L\<close>, which is \<open>L\<close> when
  \<open>L < 2 ^ 31\<close>; \<^verbatim>\<open>BYTES_PER_ELEMENT\<close> reads 1; \<^verbatim>\<open>byteOffset\<close> reads 0;
  \<^verbatim>\<open>buffer\<close> reads the array buffer of the proxy; \<^verbatim>\<open>constructor\<close> reads the
  \<^verbatim>\<open>constructor\<close> of the engine's \<^verbatim>\<open>Uint8Array\<close> prototype; and
  \<^verbatim>\<open>toString\<close> and \<^verbatim>\<open>valueOf\<close> give the bytes in decimal, joined by commas.
  For the bytes 10, 20, 30 the string is
  \<^verbatim>\<open>10,20,30\<close>. None of the reads changes the context.
\<close>

theorem synthetic_properties:
  "getOwnPropertyDescriptor cx proxy (IdString ''length'')
     = (Returned True
          (Some (Data (Int32Value (of_nat (GetArrayBufferByteLength (OtherSlot proxy)))) [])), cx)
   \<and> getOwnPropertyDescriptor cx proxy (IdString ''byteLength'')
     = (Returned True
          (Some (Data (Int32Value (of_nat (GetArrayBufferByteLength (OtherSlot proxy)))) [])), cx)
   \<and> (GetArrayBufferByteLength (OtherSlot proxy) < 2 ^ 31 \<longrightarrow>
        sint (of_nat (GetArrayBufferByteLength (OtherSlot proxy)) :: int32_t)
          = int (length (contents (OtherSlot proxy))))
   \<and> getOwnPropertyDescriptor cx proxy (IdString ''BYTES_PER_ELEMENT'')
     = (Returned True (Some (Data (Int32Value 1) [])), cx)
   \<and> getOwnPropertyDescriptor cx proxy (IdString ''byteOffset'')
     = (Returned True (Some (Data (Int32Value 0) [])), cx)
   \<and> getOwnPropertyDescriptor cx proxy (IdString ''buffer'')
     = (Returned True
          (Some (Data (ObjectValue (ArrayBufferObject (address (OtherSlot proxy)))) [])), cx)
   \<and> (\<not> out_of_memory cx \<and> Uint8Array_prototype_constructor cx = ObjectValue ctor \<longrightarrow>
        getOwnPropertyDescriptor cx proxy (IdString ''constructor'')
          = (Returned True (Some (Data (ObjectValue ctor) [Enumerable])), cx))
   \<and> array_toString cx proxy
       = (True, Some (StringValue (comma_joined (contents (OtherSlot proxy)))))
   \<and> array_valueOf cx proxy
       = (True, Some (StringValue (comma_joined (contents (OtherSlot proxy)))))
   \<and> comma_joined [10, 20, 30] = ''10,20,30''"
proof (intro conjI impI)
  assume "GetArrayBufferByteLength (OtherSlot proxy) < 2 ^ 31"
  then show "sint (of_nat (GetArrayBufferByteLength (OtherSlot proxy)) :: int32_t)
          = int (length (contents (OtherSlot proxy)))"
    by (simp add: sint_length GetArrayBufferByteLength_def)
next
  assume "\<not> out_of_memory cx \<and> Uint8Array_prototype_constructor cx = ObjectValue ctor"
  then show "getOwnPropertyDescriptor cx proxy (IdString ''constructor'')
          = (Returned True (Some (Data (ObjectValue ctor) [Enumerable])), cx)"
    by (intro gopd_constructor) simp_all
next
  show "array_toString cx proxy
          = (True, Some (StringValue (comma_joined (contents (OtherSlot proxy)))))"
    unfolding array_toString_def by (rule array_valueOf_eq)
next
  show "array_valueOf cx proxy
          = (True, Some (StringValue (comma_joined (contents (OtherSlot proxy)))))"
    by (rule array_valueOf_eq)
qed (simp_all only: gopd_properties comma_joined_example)

theorem synthetic_properties_witness:
  "getOwnPropertyDescriptor cx0 proxy0 (IdString ''length'')
     = (Returned True (Some (Data (Int32Value 3) [])), cx0)
   \<and> getOwnPropertyDescriptor cx0 proxy0 (IdString ''byteLength'')
     = (Returned True (Some (Data (Int32Value 3) [])), cx0)
   \<and> sint (3 :: int32_t) = 3
   \<and> getOwnPropertyDescriptor cx0 proxy0 (IdString ''buffer'')
     = (Returned True (Some (Data (ObjectValue (ArrayBufferObject 4096)) [])), cx0)
   \<and> getOwnPropertyDescriptor cx0 proxy0 (IdString ''constructor'')
     = (Returned True (Some (Data (ObjectValue (EngineObject 1)) [Enumerable])), cx0)
   \<and> array_toString cx0 proxy0 = (True, Some (StringValue ''10,20,30''))
   \<and> array_valueOf cx0 proxy0 = (True, Some (StringValue ''10,20,30''))"
proof -
  have L: "GetArrayBufferByteLength (OtherSlot proxy0) = 3"
    by (simp add: GetArrayBufferByteLength_def proxy0_def buffer0_def)
  have c: "contents (OtherSlot proxy0) = [10, 20, 30]" "address (OtherSlot proxy0) = 4096"
    by (simp_all add: proxy0_def buffer0_def)
  have cx: "\<not> out_of_memory cx0" "Uint8Array_prototype_constructor cx0 = ObjectValue (EngineObject 1)"
    by (simp_all add: cx0_def)
  show ?thesis
    using synthetic_properties [of cx0 proxy0 "EngineObject 1"] cx
    by (simp add: L c)
qed

section \<open>Properties of the iterator\<close>

lemma sint_ucast_byte: "sint (ucast (b :: uint8_t) :: int32_t) = uint b"
proof -
  have "uint b < 2 ^ 8" using uint_bounded [of b] by simp
  then have b2: "uint b < 2 ^ 31" and b3: "uint b < 2 ^ 32" by simp_all
  have b1: "- (2 ^ 31) \<le> uint b" by (rule order_trans [of _ 0]) simp_all
  have "uint (ucast b :: int32_t) = take_bit 32 (uint b)"
    using unsigned_ucast_eq [of b, where ?'c = 32 and ?'a = int] by simp
  also have "\<dots> = uint b"
    using b3 by (intro take_bit_int_eq_self) simp_all
  finally have u: "uint (ucast b :: int32_t) = uint b" .
  have "sint (ucast b :: int32_t) = signed_take_bit 31 (uint (ucast b :: int32_t))"
    using sint_uint [of "ucast b :: int32_t"] by simp
  also have "\<dots> = uint b"
    unfolding u using b1 b2 by (rule signed_take_bit_int_eq_self)
  finally show ?thesis .
qed

lemma sint_succ:
  "sint (i :: int32_t) < 2147483647 \<Longrightarrow> sint (i + 1) = sint i + 1"
proof -
  assume a: "sint i < 2147483647"
  have "sint (i + 1) = signed_take_bit 31 (sint i + sint (1 :: int32_t))"
    by (simp add: sint_word_ariths)
  also have "\<dots> = signed_take_bit 31 (sint i + 1)" by simp
  also have "\<dots> = sint i + 1"
    using a sint_ge [of i] by (intro signed_take_bit_int_eq_self) simp_all
  finally show ?thesis .
qed

lemma iterator_done:
  assumes "int (GetArrayBufferByteLength (BytesIteratorSlotIteratedObject thisObj))
             \<le> sint (BytesIteratorSlotNextIndex thisObj)"
    and "\<not> out_of_memory cx"
  shows "iterator_next cx thisObj = Next True (Some done_result) thisObj"
  using assms by (simp add: iterator_next_def done_result_def Let_def)

lemma next_calls_done:
  assumes "int (GetArrayBufferByteLength (BytesIteratorSlotIteratedObject thisObj))
             \<le> sint (BytesIteratorSlotNextIndex thisObj)"
    and "\<not> out_of_memory cx"
  shows "next_calls cx n thisObj = replicate n (Next True (Some done_result) thisObj)"
  using assms by (induction n) (simp_all add: iterator_done)

lemma iterator_value:
  assumes "0 \<le> sint (BytesIteratorSlotNextIndex thisObj)"
    and "sint (BytesIteratorSlotNextIndex thisObj)
           < int (GetArrayBufferByteLength (BytesIteratorSlotIteratedObject thisObj))"
    and "\<not> out_of_memory cx"
  shows "iterator_next cx thisObj =
     (let i = BytesIteratorSlotNextIndex thisObj;
          byte = contents (BytesIteratorSlotIteratedObject thisObj) ! nat (sint i);
          kind = BytesIteratorSlotItemKind thisObj
      in Next True
           (Some (value_result
              (if kind = ITEM_KIND_VALUE then Int32Value (ucast byte)
               else if kind = ITEM_KIND_KEY_AND_VALUE then
                 ObjectValue (ArrayObject [Int32Value i, Int32Value (ucast byte)])
               else Int32Value i)))
           (thisObj\<lparr>BytesIteratorSlotNextIndex := i + 1\<rparr>))"
  using assms
  by (simp add: iterator_next_def value_result_def Let_def read_byte_def
      GetArrayBufferByteLength_def)


lemma iterator_next_cases:
  assumes "iterator_next cx thisObj = Next ok rval thisObj'"
  shows "thisObj' = thisObj
           \<and> int (GetArrayBufferByteLength (BytesIteratorSlotIteratedObject thisObj))
               \<le> sint (BytesIteratorSlotNextIndex thisObj)
         \<or> thisObj' = thisObj\<lparr>BytesIteratorSlotNextIndex := BytesIteratorSlotNextIndex thisObj + 1\<rparr>
           \<and> sint (BytesIteratorSlotNextIndex thisObj)
               < int (GetArrayBufferByteLength (BytesIteratorSlotIteratedObject thisObj))"
  using assms
  by (auto simp: iterator_next_def Let_def split: if_splits sum.splits)

lemma adapter_slots:
  "adapter buf kind thisObj \<Longrightarrow>
     BytesIteratorSlotIteratedObject thisObj = buf \<and> BytesIteratorSlotItemKind thisObj = kind"
proof (induction rule: adapter.induct)
  case created
  show ?case by simp
next
  case (advanced thisObj cx ok rval thisObj')
  then show ?case using iterator_next_cases [OF advanced.hyps(2)] by auto
qed

lemma adapter_cursor:
  "adapter buf kind thisObj \<Longrightarrow> GetArrayBufferByteLength buf < 2 ^ 31 \<Longrightarrow>
     0 \<le> sint (BytesIteratorSlotNextIndex thisObj)"
proof (induction rule: adapter.induct)
  case created
  show ?case by simp
next
  case (advanced thisObj cx ok rval thisObj')
  have buf: "BytesIteratorSlotIteratedObject thisObj = buf"
    using adapter_slots [OF advanced.hyps(1)] by simp
  from iterator_next_cases [OF advanced.hyps(2)] show ?case
  proof
    assume "thisObj' = thisObj
      \<and> int (GetArrayBufferByteLength (BytesIteratorSlotIteratedObject thisObj))
          \<le> sint (BytesIteratorSlotNextIndex thisObj)"
    then show ?thesis using advanced.IH advanced.prems by simp
  next
    assume a: "thisObj' = thisObj\<lparr>BytesIteratorSlotNextIndex := BytesIteratorSlotNextIndex thisObj + 1\<rparr>
      \<and> sint (BytesIteratorSlotNextIndex thisObj)
          < int (GetArrayBufferByteLength (BytesIteratorSlotIteratedObject thisObj))"
    then have "sint (BytesIteratorSlotNextIndex thisObj) < 2147483647"
      using advanced.prems buf by simp
    then have "sint (BytesIteratorSlotNextIndex thisObj + 1)
        = sint (BytesIteratorSlotNextIndex thisObj) + 1" by (rule sint_succ)
    then show ?thesis using a advanced.IH advanced.prems by simp
  qed
qed

lemma adapter_at_cursor:
  "k \<le> length (contents buf) \<Longrightarrow> k \<le> 2147483647 \<Longrightarrow>
   adapter buf kind
     \<lparr>BytesIteratorSlotIteratedObject = buf, BytesIteratorSlotNextIndex = of_nat k,
      BytesIteratorSlotItemKind = kind\<rparr>"
proof (induction k)
  case 0
  show ?case using adapter.created [of buf kind] by simp
next
  case (Suc k)
  let ?it = "\<lparr>BytesIteratorSlotIteratedObject = buf, BytesIteratorSlotNextIndex = of_nat k,
      BytesIteratorSlotItemKind = kind\<rparr>"
  have "k < 2 ^ 31" using Suc.prems by simp
  then have k: "sint (of_nat k :: int32_t) = int k" by (rule sint_length)
  have oom: "\<not> out_of_memory cx0" by (simp add: cx0_def)
  have "0 \<le> sint (BytesIteratorSlotNextIndex ?it)"
    and "sint (BytesIteratorSlotNextIndex ?it)
           < int (GetArrayBufferByteLength (BytesIteratorSlotIteratedObject ?it))"
    using Suc.prems k by (simp_all add: GetArrayBufferByteLength_def)
  from iterator_value [OF this oom]
  obtain rval where "iterator_next cx0 ?it
      = Next True rval (?it\<lparr>BytesIteratorSlotNextIndex := of_nat k + 1\<rparr>)"
    by (simp add: Let_def)
  moreover have "adapter buf kind ?it" using Suc by simp
  ultimately have "adapter buf kind (?it\<lparr>BytesIteratorSlotNextIndex := of_nat k + 1\<rparr>)"
    by (rule adapter.advanced [rotated])
  then show ?case by (simp add: add.commute)
qed

lemma huge_iterator_adapter: "adapter huge_buffer ITEM_KIND_KEY huge_iterator"
  using adapter_at_cursor [of 2147483647 huge_buffer ITEM_KIND_KEY]
  by (simp add: huge_iterator_def huge_buffer_def)

text \<open>
  Claim C4, as it stands, fails over a buffer of \<open>2 ^ 31\<close> bytes or more: an iterator of
  its keys comes to the cursor \<open>2 ^ 31 - 1\<close>, below the length, and there \<^verbatim>\<open>next\<close> does
  not advance the cursor by one; the 32-bit cursor it stores is \<open>- 2 ^ 31\<close>.
\<close>

theorem cursor_wraps_counterexample:
  "adapter huge_buffer ITEM_KIND_KEY huge_iterator
   \<and> iterator_next cx0 huge_iterator
     = Next True (Some (value_result (Int32Value 2147483647)))
         (huge_iterator\<lparr>BytesIteratorSlotNextIndex := - 2147483648\<rparr>)
   \<and> sint (BytesIteratorSlotNextIndex huge_iterator) = 2147483647
   \<and> GetArrayBufferByteLength (BytesIteratorSlotIteratedObject huge_iterator) = 2147483648
   \<and> sint (- 2147483648 :: int32_t) = - 2147483648"
  using huge_iterator_adapter
  by (simp add: iterator_next_def huge_iterator_def huge_buffer_def cx0_def value_result_def
      GetArrayBufferByteLength_def ITEM_KIND_KEY_def ITEM_KIND_VALUE_def
      ITEM_KIND_KEY_AND_VALUE_def)

text \<open>
  Claim C4, amended. For every iterator over a buffer of length \<open>L\<close>, while the engine can
  allocate: a call of \<^verbatim>\<open>next\<close> with the cursor at or beyond \<open>L\<close> returns an object with
  \<^verbatim>\<open>done\<close> true and no \<^verbatim>\<open>value\<close>, and leaves the iterator as it is, so that any
  number of later calls do the same; when \<open>L < 2 ^ 31\<close>, a call with the cursor \<open>i\<close>
  below \<open>L\<close> (an index of the buffer, then) stores the cursor \<open>i + 1\<close> and returns
  \<^verbatim>\<open>done\<close> false with the value \<open>i\<close> (keys), the byte at \<open>i\<close> (values) or the array
  of \<open>i\<close> and that byte (key-value pairs).
\<close>

theorem iterator_next_contract:
  "adapter buf kind thisObj \<and> \<not> out_of_memory cx \<longrightarrow>
   (let L = GetArrayBufferByteLength buf;
        i = BytesIteratorSlotNextIndex thisObj;
        byte = contents buf ! nat (sint i)
    in (int L \<le> sint i \<longrightarrow>
          iterator_next cx thisObj = Next True (Some done_result) thisObj
          \<and> next_calls cx n thisObj = replicate n (Next True (Some done_result) thisObj))
     \<and> (L < 2 ^ 31 \<and> sint i < int L \<longrightarrow>
          0 \<le> sint i
          \<and> iterator_next cx thisObj =
            Next True
              (Some (value_result
                 (if kind = ITEM_KIND_VALUE then Int32Value (ucast byte)
                  else if kind = ITEM_KIND_KEY_AND_VALUE then
                    ObjectValue (ArrayObject [Int32Value i, Int32Value (ucast byte)])
                  else Int32Value i)))
              (thisObj\<lparr>BytesIteratorSlotNextIndex := i + 1\<rparr>)
          \<and> sint (i + 1) = sint i + 1
          \<and> sint (ucast byte :: int32_t) = uint byte))"
proof (intro impI)
  assume a: "adapter buf kind thisObj \<and> \<not> out_of_memory cx"
  then have slots: "BytesIteratorSlotIteratedObject thisObj = buf"
    "BytesIteratorSlotItemKind thisObj = kind"
    using adapter_slots [of buf kind thisObj] by simp_all
  from a have oom: "\<not> out_of_memory cx" by simp
  let ?L = "GetArrayBufferByteLength buf"
  let ?i = "BytesIteratorSlotNextIndex thisObj"
  let ?byte = "contents buf ! nat (sint ?i)"
  have terminal:
    "iterator_next cx thisObj = Next True (Some done_result) thisObj
     \<and> next_calls cx n thisObj = replicate n (Next True (Some done_result) thisObj)"
    if "int ?L \<le> sint ?i"
    using that oom slots iterator_done [of thisObj cx] next_calls_done [of thisObj cx n]
    by simp
  have active:
    "0 \<le> sint ?i
     \<and> iterator_next cx thisObj =
         Next True
           (Some (value_result
              (if kind = ITEM_KIND_VALUE then Int32Value (ucast ?byte)
               else if kind = ITEM_KIND_KEY_AND_VALUE then
                 ObjectValue (ArrayObject [Int32Value ?i, Int32Value (ucast ?byte)])
               else Int32Value ?i)))
           (thisObj\<lparr>BytesIteratorSlotNextIndex := ?i + 1\<rparr>)
     \<and> sint (?i + 1) = sint ?i + 1
     \<and> sint (ucast ?byte :: int32_t) = uint ?byte"
    if b: "?L < 2 ^ 31 \<and> sint ?i < int ?L"
  proof -
    from a b have nonneg: "0 \<le> sint ?i" using adapter_cursor [of buf kind thisObj] by simp
    from b have "sint ?i < 2147483647" by simp
    then have succ: "sint (?i + 1) = sint ?i + 1" by (rule sint_succ)
    have "sint ?i < int (GetArrayBufferByteLength (BytesIteratorSlotIteratedObject thisObj))"
      using b slots by simp
    from iterator_value [OF nonneg this oom]
    have "iterator_next cx thisObj =
         Next True
           (Some (value_result
              (if kind = ITEM_KIND_VALUE then Int32Value (ucast ?byte)
               else if kind = ITEM_KIND_KEY_AND_VALUE then
                 ObjectValue (ArrayObject [Int32Value ?i, Int32Value (ucast ?byte)])
               else Int32Value ?i)))
           (thisObj\<lparr>BytesIteratorSlotNextIndex := ?i + 1\<rparr>)"
      using slots by (simp add: Let_def)
    then show ?thesis using nonneg succ sint_ucast_byte [of ?byte] by simp
  qed
  show "let L = GetArrayBufferByteLength buf;
        i = BytesIteratorSlotNextIndex thisObj;
        byte = contents buf ! nat (sint i)
    in (int L \<le> sint i \<longrightarrow>
          iterator_next cx thisObj = Next True (Some done_result) thisObj
          \<and> next_calls cx n thisObj = replicate n (Next True (Some done_result) thisObj))
     \<and> (L < 2 ^ 31 \<and> sint i < int L \<longrightarrow>
          0 \<le> sint i
          \<and> iterator_next cx thisObj =
            Next True
              (Some (value_result
                 (if kind = ITEM_KIND_VALUE then Int32Value (ucast byte)
                  else if kind = ITEM_KIND_KEY_AND_VALUE then
                    ObjectValue (ArrayObject [Int32Value i, Int32Value (ucast byte)])
                  else Int32Value i)))
              (thisObj\<lparr>BytesIteratorSlotNextIndex := i + 1\<rparr>)
          \<and> sint (i + 1) = sint i + 1
          \<and> sint (ucast byte :: int32_t) = uint byte)"
    unfolding Let_def using terminal active by blast
qed

theorem iterator_next_contract_witness:
  "adapter buffer0 ITEM_KIND_KEY_AND_VALUE
      \<lparr>BytesIteratorSlotIteratedObject = buffer0, BytesIteratorSlotNextIndex = 1,
       BytesIteratorSlotItemKind = ITEM_KIND_KEY_AND_VALUE\<rparr>
   \<and> iterator_next cx0
      \<lparr>BytesIteratorSlotIteratedObject = buffer0, BytesIteratorSlotNextIndex = 1,
       BytesIteratorSlotItemKind = ITEM_KIND_KEY_AND_VALUE\<rparr>
     = Next True
         (Some (value_result (ObjectValue (ArrayObject [Int32Value 1, Int32Value 20]))))
         \<lparr>BytesIteratorSlotIteratedObject = buffer0, BytesIteratorSlotNextIndex = 2,
          BytesIteratorSlotItemKind = ITEM_KIND_KEY_AND_VALUE\<rparr>
   \<and> adapter buffer0 ITEM_KIND_KEY_AND_VALUE
      \<lparr>BytesIteratorSlotIteratedObject = buffer0, BytesIteratorSlotNextIndex = 3,
       BytesIteratorSlotItemKind = ITEM_KIND_KEY_AND_VALUE\<rparr>
   \<and> next_calls cx0 2
      \<lparr>BytesIteratorSlotIteratedObject = buffer0, BytesIteratorSlotNextIndex = 3,
       BytesIteratorSlotItemKind = ITEM_KIND_KEY_AND_VALUE\<rparr>
     = [Next True (Some done_result)
          \<lparr>BytesIteratorSlotIteratedObject = buffer0, BytesIteratorSlotNextIndex = 3,
           BytesIteratorSlotItemKind = ITEM_KIND_KEY_AND_VALUE\<rparr>,
        Next True (Some done_result)
          \<lparr>BytesIteratorSlotIteratedObject = buffer0, BytesIteratorSlotNextIndex = 3,
           BytesIteratorSlotItemKind = ITEM_KIND_KEY_AND_VALUE\<rparr>]"
proof -
  let ?it = "\<lambda>i. \<lparr>BytesIteratorSlotIteratedObject = buffer0, BytesIteratorSlotNextIndex = i,
       BytesIteratorSlotItemKind = ITEM_KIND_KEY_AND_VALUE\<rparr>"
  have k: "ITEM_KIND_KEY_AND_VALUE \<noteq> ITEM_KIND_VALUE"
    by (simp add: ITEM_KIND_KEY_AND_VALUE_def ITEM_KIND_VALUE_def)
  have L: "GetArrayBufferByteLength buffer0 = 3" "contents buffer0 = [10, 20, 30]"
    by (simp_all add: GetArrayBufferByteLength_def buffer0_def)
  have oom: "\<not> out_of_memory cx0" by (simp add: cx0_def)
  have a1: "adapter buffer0 ITEM_KIND_KEY_AND_VALUE (?it 1)"
    using adapter_at_cursor [of 1 buffer0 ITEM_KIND_KEY_AND_VALUE] by (simp add: L)
  have a3: "adapter buffer0 ITEM_KIND_KEY_AND_VALUE (?it 3)"
    using adapter_at_cursor [of 3 buffer0 ITEM_KIND_KEY_AND_VALUE] by (simp add: L)
  have 1: "iterator_next cx0 (?it 1)
     = Next True
         (Some (value_result (ObjectValue (ArrayObject [Int32Value 1, Int32Value 20]))))
         (?it 2)"
    using iterator_next_contract [of buffer0 ITEM_KIND_KEY_AND_VALUE "?it 1" cx0 0] a1 k oom
    by (simp add: L Let_def)
  have 2: "next_calls cx0 2 (?it 3)
     = [Next True (Some done_result) (?it 3), Next True (Some done_result) (?it 3)]"
    using iterator_next_contract [of buffer0 ITEM_KIND_KEY_AND_VALUE "?it 3" cx0 2] a3 oom
    by (simp add: L Let_def numeral_2_eq_2)
  show ?thesis using a1 a3 1 2 by simp
qed

section \<open>Properties of the evaluation\<close>

lemma eval_failure:
  "source_init engine (c_str code) \<Longrightarrow> Evaluate engine (c_str code) = Inl pending \<Longrightarrow>
   eval engine st (PyUnicode code) =
     (PyReturn None,
      st\<lparr>next_GCThing := Suc (next_GCThing st),
         global_cx := (global_cx st)\<lparr>pending_exception := pending\<rparr>,
         host := PyErr_SetString PyExc_RuntimeError
           ''Spidermonkey could not evaluate the given JS code.'' (host st)\<rparr>)"
  by (simp add: eval_def Let_def)

lemma eval_value:
  "source_init engine (c_str code) \<Longrightarrow> Evaluate engine (c_str code) = Inr v \<Longrightarrow>
   eval engine st (PyUnicode code) =
     (let rval = next_GCThing st; st' = st\<lparr>next_GCThing := Suc rval\<rparr>
      in case v of
           UndefinedValue \<Rightarrow>
             (PyReturn (Some PyNone), st'\<lparr>host := printf (not_handled ''undefined'') (host st')\<rparr>)
         | NullValue \<Rightarrow>
             (PyReturn (Some PyNone), st'\<lparr>host := printf (not_handled ''null'') (host st')\<rparr>)
         | BooleanValue b \<Rightarrow> (PyReturn (Some (PyBool b)), st')
         | Int32Value i \<Rightarrow> (FloatType (toNumber v), st')
         | DoubleValue d \<Rightarrow> (FloatType (toNumber v), st')
         | StringValue s \<Rightarrow>
             (PyReturn (Some (PyUnicode s)),
              st'\<lparr>next_PyType := Suc (next_PyType st'),
                  memo := memoizePyTypeAndGCThing (memo st') (next_PyType st') rval\<rparr>)
         | SymbolValue \<Rightarrow>
             (PyReturn (Some PyNone), st'\<lparr>host := printf (not_handled ''symbol'') (host st')\<rparr>)
         | BigIntValue \<Rightarrow>
             (PyReturn (Some PyNone), st'\<lparr>host := printf (not_handled ''bigint'') (host st')\<rparr>)
         | ObjectValue obj \<Rightarrow>
             (case object_branch engine obj of
                Some r \<Rightarrow> (r, st')
              | None \<Rightarrow> (PyReturn (Some PyNone), st'))
         | MagicValue \<Rightarrow>
             (PyReturn (Some PyNone), st'\<lparr>host := printf (not_handled ''magic'') (host st')\<rparr>))"
  by (cases v) (simp_all add: eval_def Let_def)

lemma object_branch_not_long: "object_branch engine obj \<noteq> Some (PyReturn (Some (PyLong n)))"
  by (auto simp: object_branch_def split: list.splits option.splits)

lemma eval_never_long: "fst (eval engine st arg) \<noteq> PyReturn (Some (PyLong n))"
proof (cases arg)
  case (PyUnicode code)
  show ?thesis
  proof (cases "source_init engine (c_str code)")
    case False
    then show ?thesis using PyUnicode by (simp add: eval_def)
  next
    case True
    show ?thesis
    proof (cases "Evaluate engine (c_str code)")
      case (Inl pending)
      then show ?thesis using PyUnicode True by (simp add: eval_failure)
    next
      case (Inr v)
      then show ?thesis using PyUnicode True object_branch_not_long [of engine _ n]
        by (cases v) (auto simp: eval_value Let_def FloatType_def split: option.splits)
    qed
  qed
qed (simp_all add: eval_def)


text \<open>What \<^verbatim>\<open>setSpiderMonkeyException\<close> raises: for an exception with a report, a line
  of code and a stack, the file and the line, the line of code with the caret under the
  token, the message of the engine and the stack; with no exception pending, a fixed
  text.\<close>

lemma setSpiderMonkeyException_diagnostic:
  assumes "pending_exception cx = Some ex" "retrievable ex" "report_init ex"
    and "report ex = Some r" "linebuf r = Some l" "l \<noteq> []" "stack ex = Some st"
  shows "setSpiderMonkeyException cx py =
     py\<lparr>PyErr_Occurred := Some (SpiderMonkeyError,
        ''Error in file '' @ filename r @ '', on line '' @ to_string (lineno r) @ '':'' @ newline
          @ l @ newline @ replicate (tokenOffset r) CHR '' '' @ ''^'' @ newline
          @ toStringResult ex @ newline
          @ ''Stack Trace: '' @ newline @ st)\<rparr>"
  using assms
  by (simp add: setSpiderMonkeyException_def exception_text_def report_lines_def
      PyErr_SetString_def Let_def)

lemma setSpiderMonkeyException_generic:
  "pending_exception cx = None \<Longrightarrow>
   setSpiderMonkeyException cx py =
     py\<lparr>PyErr_Occurred := Some (SpiderMonkeyError,
        ''Spidermonkey failed, but spidermonkey did not set an exception.'')\<rparr>"
  by (simp add: setSpiderMonkeyException_def PyErr_SetString_def)

lemma exception_text_thrown:
  "exception_text thrown =
     ''Error in file noname, on line 1:'' @ newline @ ''Error: 1'' @ newline
       @ ''Stack Trace: '' @ newline @ ''@noname:1:7'' @ newline"
  by (simp add: exception_text_def report_lines_def thrown_def to_string.simps digit_def)

text \<open>
  Claim C8. A script that throws: \<^verbatim>\<open>eval\<close> returns \<^verbatim>\<open>NULL\<close> with a
  \<^verbatim>\<open>RuntimeError\<close> of a fixed text, which holds nothing of the exception, and leaves the
  exception pending in the context. \<^verbatim>\<open>setSpiderMonkeyException\<close>, which \<^verbatim>\<open>eval\<close>
  does not call, would raise the diagnostic of the claim from that context: the file and
  the line, the message of the engine and the stack.
\<close>

theorem eval_drops_the_exception:
  "eval throwing_engine bridge0 (PyUnicode ''throw new Error(1)'')
     = (PyReturn None,
        bridge0\<lparr>next_GCThing := 1,
                global_cx := cx0\<lparr>pending_exception := Some thrown\<rparr>,
                host := py0\<lparr>PyErr_Occurred := Some (PyExc_RuntimeError,
                  ''Spidermonkey could not evaluate the given JS code.'')\<rparr>\<rparr>)
   \<and> setSpiderMonkeyException (cx0\<lparr>pending_exception := Some thrown\<rparr>) py0
     = py0\<lparr>PyErr_Occurred := Some (SpiderMonkeyError,
         ''Error in file noname, on line 1:'' @ newline @ ''Error: 1'' @ newline
           @ ''Stack Trace: '' @ newline @ ''@noname:1:7'' @ newline)\<rparr>
   \<and> setSpiderMonkeyException (cx0\<lparr>pending_exception := None\<rparr>) py0
     = py0\<lparr>PyErr_Occurred := Some (SpiderMonkeyError,
         ''Spidermonkey failed, but spidermonkey did not set an exception.'')\<rparr>"
proof -
  have "eval throwing_engine bridge0 (PyUnicode ''throw new Error(1)'')
     = (PyReturn None,
        bridge0\<lparr>next_GCThing := 1,
                global_cx := cx0\<lparr>pending_exception := Some thrown\<rparr>,
                host := py0\<lparr>PyErr_Occurred := Some (PyExc_RuntimeError,
                  ''Spidermonkey could not evaluate the given JS code.'')\<rparr>\<rparr>)"
    by (subst eval_failure [where pending = "Some thrown"])
       (simp_all add: throwing_engine_def bridge0_def PyErr_SetString_def)
  moreover have "setSpiderMonkeyException (cx0\<lparr>pending_exception := Some thrown\<rparr>) py0
     = py0\<lparr>PyErr_Occurred := Some (SpiderMonkeyError, exception_text thrown)\<rparr>"
    by (simp add: setSpiderMonkeyException_def PyErr_SetString_def thrown_def)
  moreover have "setSpiderMonkeyException (cx0\<lparr>pending_exception := None\<rparr>) py0
     = py0\<lparr>PyErr_Occurred := Some (SpiderMonkeyError,
         ''Spidermonkey failed, but spidermonkey did not set an exception.'')\<rparr>"
    by (simp add: setSpiderMonkeyException_def PyErr_SetString_def)
  ultimately show ?thesis by (simp only: exception_text_thrown simp_thms)
qed


text \<open>
  Claim C9. When the script is evaluated and its value is \<^verbatim>\<open>undefined\<close>, \<^verbatim>\<open>null\<close>,
  a symbol, a big integer or a magic value, \<^verbatim>\<open>eval\<close> does not fail: it returns
  \<^verbatim>\<open>None\<close>, prints the notice that the type is not handled, and leaves the error
  indicator and the association table as they were.
\<close>

theorem eval_unhandled_value_gives_None:
  "source_init engine (c_str code) \<and> Evaluate engine (c_str code) = Inr v
     \<and> v \<in> {UndefinedValue, NullValue, SymbolValue, BigIntValue, MagicValue}
   \<longrightarrow> fst (eval engine st (PyUnicode code)) = PyReturn (Some PyNone)
     \<and> (\<exists>kind. unhandled_kind v = Some kind
          \<and> stdout (host (snd (eval engine st (PyUnicode code))))
              = stdout (host st) @ kind @ '' type is not handled by PythonMonkey yet'')
     \<and> PyErr_Occurred (host (snd (eval engine st (PyUnicode code)))) = PyErr_Occurred (host st)
     \<and> memo (snd (eval engine st (PyUnicode code))) = memo st"
proof (intro impI)
  assume a: "source_init engine (c_str code) \<and> Evaluate engine (c_str code) = Inr v
     \<and> v \<in> {UndefinedValue, NullValue, SymbolValue, BigIntValue, MagicValue}"
  then have ev: "source_init engine (c_str code)" "Evaluate engine (c_str code) = Inr v"
    by simp_all
  from a consider "v = UndefinedValue" | "v = NullValue" | "v = SymbolValue"
    | "v = BigIntValue" | "v = MagicValue" by auto
  then show "fst (eval engine st (PyUnicode code)) = PyReturn (Some PyNone)
     \<and> (\<exists>kind. unhandled_kind v = Some kind
          \<and> stdout (host (snd (eval engine st (PyUnicode code))))
              = stdout (host st) @ kind @ '' type is not handled by PythonMonkey yet'')
     \<and> PyErr_Occurred (host (snd (eval engine st (PyUnicode code)))) = PyErr_Occurred (host st)
     \<and> memo (snd (eval engine st (PyUnicode code))) = memo st"
    by cases (simp_all add: eval_value [OF ev] Let_def printf_def not_handled_def)
qed

theorem eval_unhandled_value_gives_None_witness:
  "eval (constant_engine UndefinedValue) bridge0 (PyUnicode ''undefined'')
     = (PyReturn (Some PyNone),
        bridge0\<lparr>next_GCThing := 1,
                host := py0\<lparr>stdout := ''undefined type is not handled by PythonMonkey yet''\<rparr>\<rparr>)
   \<and> fst (eval (constant_engine BigIntValue) bridge0 (PyUnicode ''1n'')) = PyReturn (Some PyNone)
   \<and> stdout (host (snd (eval (constant_engine BigIntValue) bridge0 (PyUnicode ''1n''))))
       = ''bigint type is not handled by PythonMonkey yet''"
proof -
  have e: "source_init (constant_engine v) src" "Evaluate (constant_engine v) src = Inr v"
    for v src by (simp_all add: constant_engine_def)
  have 1: "eval (constant_engine UndefinedValue) bridge0 (PyUnicode ''undefined'')
     = (PyReturn (Some PyNone),
        bridge0\<lparr>next_GCThing := 1,
                host := py0\<lparr>stdout := ''undefined type is not handled by PythonMonkey yet''\<rparr>\<rparr>)"
    by (simp add: eval_value [OF e] Let_def printf_def not_handled_def bridge0_def py0_def)
  have 2: "fst (eval (constant_engine BigIntValue) bridge0 (PyUnicode ''1n''))
       = PyReturn (Some PyNone)
     \<and> stdout (host (snd (eval (constant_engine BigIntValue) bridge0 (PyUnicode ''1n''))))
       = ''bigint type is not handled by PythonMonkey yet''"
    using eval_unhandled_value_gives_None
      [of "constant_engine BigIntValue" "''1n''" BigIntValue bridge0] e
    by (simp add: bridge0_def py0_def)
  show ?thesis using 1 2 by simp
qed

text \<open>
  Claim C10. When the script is evaluated and its value is a number, \<^verbatim>\<open>eval\<close> returns
  the host float of \<^verbatim>\<open>toNumber\<close> of the value; for a 32-bit integer that is the float
  of the integer. No call of \<^verbatim>\<open>eval\<close> returns a host integer.
\<close>

theorem eval_number_gives_float:
  "(source_init engine (c_str code) \<and> Evaluate engine (c_str code) = Inr v \<and> isNumber v
     \<longrightarrow> (\<exists>d. toNumber v = Some d
           \<and> fst (eval engine st (PyUnicode code)) = PyReturn (Some (PyFloat d))))
   \<and> (source_init engine (c_str code) \<and> Evaluate engine (c_str code) = Inr (Int32Value i)
     \<longrightarrow> fst (eval engine st (PyUnicode code))
           = PyReturn (Some (PyFloat (Finite (real_of_int (sint i))))))
   \<and> fst (eval engine st arg) \<noteq> PyReturn (Some (PyLong n))"
proof (intro conjI impI)
  assume a: "source_init engine (c_str code) \<and> Evaluate engine (c_str code) = Inr v
     \<and> isNumber v"
  then have ev: "source_init engine (c_str code)" "Evaluate engine (c_str code) = Inr v"
    by simp_all
  from a have "isNumber v" by simp
  then show "\<exists>d. toNumber v = Some d
           \<and> fst (eval engine st (PyUnicode code)) = PyReturn (Some (PyFloat d))"
    by (cases v) (simp_all add: eval_value [OF ev] Let_def FloatType_def)
next
  assume "source_init engine (c_str code)
     \<and> Evaluate engine (c_str code) = Inr (Int32Value i)"
  then have ev: "source_init engine (c_str code)"
    "Evaluate engine (c_str code) = Inr (Int32Value i)" by simp_all
  show "fst (eval engine st (PyUnicode code))
           = PyReturn (Some (PyFloat (Finite (real_of_int (sint i)))))"
    by (simp add: eval_value [OF ev] Let_def FloatType_def)
next
  show "fst (eval engine st arg) \<noteq> PyReturn (Some (PyLong n))"
    by (rule eval_never_long)
qed

theorem eval_number_gives_float_witness:
  "fst (eval (constant_engine (Int32Value 2)) bridge0 (PyUnicode ''1 + 1''))
     = PyReturn (Some (PyFloat (Finite 2)))
   \<and> fst (eval (constant_engine (Int32Value 2)) bridge0 (PyUnicode ''1 + 1''))
     \<noteq> PyReturn (Some (PyLong 2))"
  using eval_number_gives_float
    [of "constant_engine (Int32Value 2)" "''1 + 1''" "Int32Value 2" bridge0 2
        "PyUnicode ''1 + 1''" 2]
  by (simp add: constant_engine_def)

end
